theory Spec2Isabelle
  imports Main "HOL-Library.Multiset"
begin

section \<open>The ingestion state store of the news aggregator\<close>

text \<open>
  A shallow embedding of \<^verbatim>\<open>src/app/database/repository.py\<close>: the class
  \<^verbatim>\<open>Repository\<close> with its thirteen methods over four tables. A method of the
  source takes \<^verbatim>\<open>self\<close> and works on \<^verbatim>\<open>self.session\<close>; here it takes the
  database it works on as its first argument and returns the database it leaves behind
  together with its result.
\<close>

subsection \<open>Time\<close>

text \<open>
  A Python \<^verbatim>\<open>datetime\<close> is kept as the number of microseconds since
  0001-01-01T00:00:00 (\<^verbatim>\<open>datetime.min\<close>), with the one bit of time zone
  information the source looks at: \<open>Naive\<close> when \<^verbatim>\<open>tzinfo is None\<close>, \<open>Aware\<close> for
  a reading in UTC. The database compares and orders timestamps by \<open>micros\<close>.
\<close>

datatype datetime = Naive (micros: int) | Aware (micros: int)

datatype error = OverflowError | IntegrityError

text \<open>\<^verbatim>\<open>datetime.max\<close>, 9999-12-31T23:59:59.999999, in microseconds since \<^verbatim>\<open>datetime.min\<close>.\<close>

definition DATETIME_MAX :: int where
  "DATETIME_MAX = 3652059 * 86400000000 - 1"

text \<open>
  \<^verbatim>\<open>timedelta(hours=hours)\<close>: the duration in microseconds. Python normalises it to
  days, seconds and microseconds and raises OverflowError when the days exceed
  999999999 in magnitude.
\<close>

definition timedelta_hours :: "int \<Rightarrow> error + int" where
  "timedelta_hours hours =
     (if hours div 24 < - 999999999 \<or> 999999999 < hours div 24 then Inl OverflowError
      else Inr (hours * 3600000000))"

text \<open>
  \<^verbatim>\<open>d - delta\<close> for a datetime and a timedelta: OverflowError when the result
  leaves the years 1 to 9999.
\<close>

definition datetime_sub :: "datetime \<Rightarrow> int \<Rightarrow> error + datetime" where
  "datetime_sub d delta =
     (let m = micros d - delta
      in if m < 0 \<or> DATETIME_MAX < m then Inl OverflowError
         else Inr (case d of Naive _ \<Rightarrow> Naive m | Aware _ \<Rightarrow> Aware m))"

text \<open>\<^verbatim>\<open>d.replace(tzinfo=timezone.utc)\<close>: the same reading, now in UTC.\<close>

definition replace_tzinfo_utc :: "datetime \<Rightarrow> datetime" where
  "replace_tzinfo_utc d = Aware (micros d)"

definition tzinfo_is_None :: "datetime \<Rightarrow> bool" where
  "tzinfo_is_None d = (case d of Naive _ \<Rightarrow> True | Aware _ \<Rightarrow> False)"

subsection \<open>Rows\<close>

text \<open>
  The four mapped classes, with the columns the repository reads and writes. Columns
  that several classes share carry a prefix here (\<open>yt_\<close>, \<open>oa_\<close>, \<open>an_\<close>, \<open>dg_\<close>),
  since record fields of one theory need distinct names; \<open>dg_id\<close> is \<^verbatim>\<open>Digest.id\<close>.
\<close>

record youtube_video =
  video_id :: string
  yt_title :: string
  yt_url :: string
  channel_id :: string
  yt_published_at :: datetime
  yt_description :: string
  transcript :: "string option"

record openai_article =
  oa_guid :: string
  oa_title :: string
  oa_url :: string
  oa_published_at :: datetime
  oa_description :: string
  oa_category :: "string option"

record anthropic_article =
  an_guid :: string
  an_title :: string
  an_url :: string
  an_published_at :: datetime
  an_description :: string
  an_category :: "string option"
  markdown :: "string option"

record digest =
  dg_id :: string
  article_type :: string
  article_id :: string
  dg_url :: string
  dg_title :: string
  summary :: string
  created_at :: datetime

text \<open>
  The dictionaries the bulk methods take. A key the source reads with
  \<^verbatim>\<open>v["..."]\<close> is a plain field (the key is there); a key it reads with
  \<^verbatim>\<open>v.get("...", default)\<close> is optional, \<open>None\<close> when the dictionary lacks it.
\<close>

record video_dict =
  vd_video_id :: string
  vd_title :: string
  vd_url :: string
  vd_channel_id :: "string option"
  vd_published_at :: datetime
  vd_description :: "string option"
  vd_transcript :: "string option"

record article_dict =
  ad_guid :: string
  ad_title :: string
  ad_url :: string
  ad_published_at :: datetime
  ad_description :: "string option"
  ad_category :: "string option"

text \<open>The dictionary \<^verbatim>\<open>get_articles_without_digest\<close> builds for each pending item.\<close>

record unified_article =
  u_type :: string
  u_id :: string
  u_title :: string
  u_url :: string
  content :: string
  u_published_at :: datetime

subsection \<open>The database behind the session\<close>

text \<open>
  The four tables, each a list of rows in insertion order, and one fact about their
  declarations. The declarations (\<^verbatim>\<open>models.py\<close>) are not among the sources, so
  whether the key column of a table is declared unique is a parameter of the database:
  \<open>unique_keys\<close>. With it, a commit that would store two rows under one key is
  rejected as a whole (IntegrityError); without it, the rows are stored.
\<close>

record store =
  unique_keys :: bool
  youtube_videos :: "youtube_video list"
  openai_articles :: "openai_article list"
  anthropic_articles :: "anthropic_article list"
  digests :: "digest list"

text \<open>\<^verbatim>\<open>session.query(T).filter_by(...).first()\<close>: the first row that matches, if any.\<close>

definition query_first :: "('r \<Rightarrow> bool) \<Rightarrow> 'r list \<Rightarrow> 'r option" where
  "query_first p rows = find p rows"

text \<open>
  \<^verbatim>\<open>session.add_all(new); session.commit()\<close> on a table with key column \<open>key\<close>.
\<close>

definition add_commit :: "bool \<Rightarrow> ('r \<Rightarrow> string) \<Rightarrow> 'r list \<Rightarrow> 'r list \<Rightarrow> error + 'r list" where
  "add_commit uq key new rows =
     (if uq \<and> \<not> (distinct (map key new) \<and> list_all (\<lambda>r. key r \<notin> set (map key rows)) new)
      then Inl IntegrityError
      else Inr (rows @ new))"

text \<open>
  An attribute assignment on the object \<^verbatim>\<open>.first()\<close> returned, then a commit: the
  first matching row changes, every other row stays.
\<close>

fun update_first :: "('r \<Rightarrow> bool) \<Rightarrow> ('r \<Rightarrow> 'r) \<Rightarrow> 'r list \<Rightarrow> 'r list" where
  "update_first p f [] = []"
| "update_first p f (r # rows) = (if p r then f r # rows else r # update_first p f rows)"

text \<open>
  \<^verbatim>\<open>if limit: query = query.limit(limit)\<close>. The limit is a row count; \<open>None\<close> and
  \<open>0\<close> are both falsy in Python, so neither limits the query. What SQL's LIMIT does
  with a negative number depends on the database, which is not among the sources, so
  the limit of the two queries built this way is a natural number.
\<close>

definition query_limit :: "nat option \<Rightarrow> 'r list \<Rightarrow> 'r list" where
  "query_limit limit rows =
     (case limit of
        None \<Rightarrow> rows
      | Some n \<Rightarrow> if n \<noteq> 0 then take n rows else rows)"

text \<open>
  The slice \<^verbatim>\<open>xs[:n]\<close> of a Python list: the first \<open>n\<close> elements, and for a
  negative \<open>n\<close> all but the last \<open>-n\<close>.
\<close>

definition slice_to :: "'a list \<Rightarrow> int \<Rightarrow> 'a list" where
  "slice_to xs n = (if 0 \<le> n then take (nat n) xs else take (nat (int (length xs) + n)) xs)"

text \<open>
  \<^verbatim>\<open>a or b\<close> on strings, where \<open>a\<close> may be \<^verbatim>\<open>None\<close>: \<open>b\<close> when \<open>a\<close> is
  \<^verbatim>\<open>None\<close> or empty.
\<close>

definition or_else :: "string option \<Rightarrow> string \<Rightarrow> string" where
  "or_else a b = (case a of None \<Rightarrow> b | Some s \<Rightarrow> if s = [] then b else s)"

text \<open>\<^verbatim>\<open>d.get(key, default)\<close> for an optional key.\<close>

definition get_default :: "'a option \<Rightarrow> 'a \<Rightarrow> 'a" where
  "get_default v dflt = (case v of None \<Rightarrow> dflt | Some x \<Rightarrow> x)"

subsection \<open>Registering source items\<close>

definition create_youtube_video ::
  "store \<Rightarrow> string \<Rightarrow> string \<Rightarrow> string \<Rightarrow> string \<Rightarrow> datetime \<Rightarrow> string \<Rightarrow> string option
     \<Rightarrow> error + (store \<times> youtube_video option)" where
  "create_youtube_video st vid title url channel published description tr =
     (case query_first (\<lambda>v. video_id v = vid) (youtube_videos st) of
        Some existing \<Rightarrow> Inr (st, None)
      | None \<Rightarrow>
          (let video = \<lparr>video_id = vid, yt_title = title, yt_url = url, channel_id = channel,
                        yt_published_at = published, yt_description = description,
                        transcript = tr\<rparr>
           in case add_commit (unique_keys st) video_id [video] (youtube_videos st) of
                Inl e \<Rightarrow> Inl e
              | Inr rows \<Rightarrow> Inr (st\<lparr>youtube_videos := rows\<rparr>, Some video)))"

definition create_openai_article ::
  "store \<Rightarrow> string \<Rightarrow> string \<Rightarrow> string \<Rightarrow> datetime \<Rightarrow> string \<Rightarrow> string option
     \<Rightarrow> error + (store \<times> openai_article option)" where
  "create_openai_article st guid title url published description category =
     (case query_first (\<lambda>a. oa_guid a = guid) (openai_articles st) of
        Some existing \<Rightarrow> Inr (st, None)
      | None \<Rightarrow>
          (let article = \<lparr>oa_guid = guid, oa_title = title, oa_url = url,
                          oa_published_at = published, oa_description = description,
                          oa_category = category\<rparr>
           in case add_commit (unique_keys st) oa_guid [article] (openai_articles st) of
                Inl e \<Rightarrow> Inl e
              | Inr rows \<Rightarrow> Inr (st\<lparr>openai_articles := rows\<rparr>, Some article)))"

text \<open>A new Anthropic article has no markdown yet: the constructor leaves the column unset.\<close>

definition create_anthropic_article ::
  "store \<Rightarrow> string \<Rightarrow> string \<Rightarrow> string \<Rightarrow> datetime \<Rightarrow> string \<Rightarrow> string option
     \<Rightarrow> error + (store \<times> anthropic_article option)" where
  "create_anthropic_article st guid title url published description category =
     (case query_first (\<lambda>a. an_guid a = guid) (anthropic_articles st) of
        Some existing \<Rightarrow> Inr (st, None)
      | None \<Rightarrow>
          (let article = \<lparr>an_guid = guid, an_title = title, an_url = url,
                          an_published_at = published, an_description = description,
                          an_category = category, markdown = None\<rparr>
           in case add_commit (unique_keys st) an_guid [article] (anthropic_articles st) of
                Inl e \<Rightarrow> Inl e
              | Inr rows \<Rightarrow> Inr (st\<lparr>anthropic_articles := rows\<rparr>, Some article)))"

subsection \<open>Registering batches\<close>

text \<open>
  The loop of each bulk method: every dictionary is checked against the table as it
  was when the method was called (the new objects are added to the session only after
  the loop), and a dictionary whose key is not stored yields a new object.
\<close>

definition youtube_video_of :: "video_dict \<Rightarrow> youtube_video" where
  "youtube_video_of v =
     \<lparr>video_id = vd_video_id v, yt_title = vd_title v, yt_url = vd_url v,
      channel_id = get_default (vd_channel_id v) [],
      yt_published_at = vd_published_at v,
      yt_description = get_default (vd_description v) [],
      transcript = vd_transcript v\<rparr>"

definition openai_article_of :: "article_dict \<Rightarrow> openai_article" where
  "openai_article_of a =
     \<lparr>oa_guid = ad_guid a, oa_title = ad_title a, oa_url = ad_url a,
      oa_published_at = ad_published_at a,
      oa_description = get_default (ad_description a) [],
      oa_category = ad_category a\<rparr>"

definition anthropic_article_of :: "article_dict \<Rightarrow> anthropic_article" where
  "anthropic_article_of a =
     \<lparr>an_guid = ad_guid a, an_title = ad_title a, an_url = ad_url a,
      an_published_at = ad_published_at a,
      an_description = get_default (ad_description a) [],
      an_category = ad_category a, markdown = None\<rparr>"

fun new_rows :: "('r \<Rightarrow> string) \<Rightarrow> ('d \<Rightarrow> string) \<Rightarrow> ('d \<Rightarrow> 'r) \<Rightarrow> 'r list \<Rightarrow> 'd list \<Rightarrow> 'r list" where
  "new_rows key dkey mk rows [] = []"
| "new_rows key dkey mk rows (d # ds) =
     (case query_first (\<lambda>r. key r = dkey d) rows of
        None \<Rightarrow> mk d # new_rows key dkey mk rows ds
      | Some existing \<Rightarrow> new_rows key dkey mk rows ds)"

definition bulk_create_youtube_videos :: "store \<Rightarrow> video_dict list \<Rightarrow> error + (store \<times> nat)" where
  "bulk_create_youtube_videos st videos =
     (let new_videos = new_rows video_id vd_video_id youtube_video_of (youtube_videos st) videos
      in if new_videos \<noteq> [] then
           (case add_commit (unique_keys st) video_id new_videos (youtube_videos st) of
              Inl e \<Rightarrow> Inl e
            | Inr rows \<Rightarrow> Inr (st\<lparr>youtube_videos := rows\<rparr>, length new_videos))
         else Inr (st, length new_videos))"

definition bulk_create_openai_articles :: "store \<Rightarrow> article_dict list \<Rightarrow> error + (store \<times> nat)" where
  "bulk_create_openai_articles st articles =
     (let new_articles = new_rows oa_guid ad_guid openai_article_of (openai_articles st) articles
      in if new_articles \<noteq> [] then
           (case add_commit (unique_keys st) oa_guid new_articles (openai_articles st) of
              Inl e \<Rightarrow> Inl e
            | Inr rows \<Rightarrow> Inr (st\<lparr>openai_articles := rows\<rparr>, length new_articles))
         else Inr (st, length new_articles))"

definition bulk_create_anthropic_articles :: "store \<Rightarrow> article_dict list \<Rightarrow> error + (store \<times> nat)" where
  "bulk_create_anthropic_articles st articles =
     (let new_articles =
            new_rows an_guid ad_guid anthropic_article_of (anthropic_articles st) articles
      in if new_articles \<noteq> [] then
           (case add_commit (unique_keys st) an_guid new_articles (anthropic_articles st) of
              Inl e \<Rightarrow> Inl e
            | Inr rows \<Rightarrow> Inr (st\<lparr>anthropic_articles := rows\<rparr>, length new_articles))
         else Inr (st, length new_articles))"

subsection \<open>Enrichment\<close>

definition UNAVAILABLE :: string where
  "UNAVAILABLE = ''__UNAVAILABLE__''"

definition get_anthropic_articles_without_markdown ::
  "store \<Rightarrow> nat option \<Rightarrow> anthropic_article list" where
  "get_anthropic_articles_without_markdown st limit =
     query_limit limit (filter (\<lambda>a. markdown a = None) (anthropic_articles st))"

definition update_anthropic_article_markdown :: "store \<Rightarrow> string \<Rightarrow> string \<Rightarrow> store \<times> bool" where
  "update_anthropic_article_markdown st guid md =
     (case query_first (\<lambda>a. an_guid a = guid) (anthropic_articles st) of
        Some article \<Rightarrow>
          (st\<lparr>anthropic_articles :=
                update_first (\<lambda>a. an_guid a = guid) (\<lambda>a. a\<lparr>markdown := Some md\<rparr>)
                  (anthropic_articles st)\<rparr>, True)
      | None \<Rightarrow> (st, False))"

definition get_youtube_videos_without_transcript ::
  "store \<Rightarrow> nat option \<Rightarrow> youtube_video list" where
  "get_youtube_videos_without_transcript st limit =
     query_limit limit (filter (\<lambda>v. transcript v = None) (youtube_videos st))"

definition update_youtube_video_transcript :: "store \<Rightarrow> string \<Rightarrow> string \<Rightarrow> store \<times> bool" where
  "update_youtube_video_transcript st vid tr =
     (case query_first (\<lambda>v. video_id v = vid) (youtube_videos st) of
        Some video \<Rightarrow>
          (st\<lparr>youtube_videos :=
                update_first (\<lambda>v. video_id v = vid) (\<lambda>v. v\<lparr>transcript := Some tr\<rparr>)
                  (youtube_videos st)\<rparr>, True)
      | None \<Rightarrow> (st, False))"

subsection \<open>Items pending a digest\<close>

text \<open>
  One scan of \<^verbatim>\<open>get_articles_without_digest\<close>: for each selected row, the key
  \<^verbatim>\<open>f"{type}:{id}"\<close> is looked up in \<^verbatim>\<open>seen_ids\<close> and the row's dictionary is
  appended to \<^verbatim>\<open>articles\<close> when the key is not there.
\<close>

definition scan ::
  "string set \<Rightarrow> ('r \<Rightarrow> string) \<Rightarrow> ('r \<Rightarrow> unified_article) \<Rightarrow> 'r list
     \<Rightarrow> unified_article list \<Rightarrow> unified_article list" where
  "scan seen_ids key mk rows articles =
     fold (\<lambda>r acc. if key r \<notin> seen_ids then acc @ [mk r] else acc) rows articles"

definition youtube_item :: "youtube_video \<Rightarrow> unified_article" where
  "youtube_item video =
     \<lparr>u_type = ''youtube'', u_id = video_id video, u_title = yt_title video,
      u_url = yt_url video,
      content = or_else (transcript video) (or_else (Some (yt_description video)) []),
      u_published_at = yt_published_at video\<rparr>"

definition openai_item :: "openai_article \<Rightarrow> unified_article" where
  "openai_item article =
     \<lparr>u_type = ''openai'', u_id = oa_guid article, u_title = oa_title article,
      u_url = oa_url article,
      content = or_else (Some (oa_description article)) [],
      u_published_at = oa_published_at article\<rparr>"

definition anthropic_item :: "anthropic_article \<Rightarrow> unified_article" where
  "anthropic_item article =
     \<lparr>u_type = ''anthropic'', u_id = an_guid article, u_title = an_title article,
      u_url = an_url article,
      content = or_else (markdown article) (or_else (Some (an_description article)) []),
      u_published_at = an_published_at article\<rparr>"

definition get_articles_without_digest :: "store \<Rightarrow> int option \<Rightarrow> unified_article list" where
  "get_articles_without_digest st limit =
     (let seen_ids = fold (\<lambda>d s. insert (article_type d @ '':'' @ article_id d) s) (digests st) {};
          youtube = filter (\<lambda>v. transcript v \<noteq> None \<and> transcript v \<noteq> Some ''__UNAVAILABLE__'')
                      (youtube_videos st);
          articles = scan seen_ids (\<lambda>v. ''youtube:'' @ video_id v) youtube_item youtube [];
          articles = scan seen_ids (\<lambda>a. ''openai:'' @ oa_guid a) openai_item
                       (openai_articles st) articles;
          anthropic = filter (\<lambda>a. markdown a \<noteq> None) (anthropic_articles st);
          articles = scan seen_ids (\<lambda>a. ''anthropic:'' @ an_guid a) anthropic_item
                       anthropic articles
      in case limit of
           None \<Rightarrow> articles
         | Some n \<Rightarrow> if n \<noteq> 0 then slice_to articles n else articles)"

subsection \<open>The digest ledger\<close>

text \<open>
  \<open>now\<close> is what \<^verbatim>\<open>datetime.now(timezone.utc)\<close> reads during the call, in
  microseconds. A datetime object is always truthy, so \<^verbatim>\<open>if published_at\<close> asks
  whether the argument was given.
\<close>

definition create_digest ::
  "store \<Rightarrow> int \<Rightarrow> string \<Rightarrow> string \<Rightarrow> string \<Rightarrow> string \<Rightarrow> string \<Rightarrow> datetime option
     \<Rightarrow> error + (store \<times> digest option)" where
  "create_digest st now atype aid url title summ published_at =
     (let digest_id = atype @ '':'' @ aid
      in case query_first (\<lambda>d. dg_id d = digest_id) (digests st) of
           Some existing \<Rightarrow> Inr (st, None)
         | None \<Rightarrow>
             (let created =
                    (case published_at of
                       Some p \<Rightarrow> if tzinfo_is_None p then replace_tzinfo_utc p else p
                     | None \<Rightarrow> Aware now);
                  d = \<lparr>dg_id = digest_id, article_type = atype, article_id = aid,
                       dg_url = url, dg_title = title, summary = summ, created_at = created\<rparr>
              in case add_commit (unique_keys st) dg_id [d] (digests st) of
                   Inl e \<Rightarrow> Inl e
                 | Inr rows \<Rightarrow> Inr (st\<lparr>digests := rows\<rparr>, Some d)))"

text \<open>
  \<^verbatim>\<open>ORDER BY created_at DESC\<close>, as a stable sort on the negated timestamp. The
  dictionary built for each row has the seven columns of the row, so it is a \<open>digest\<close>
  again.
\<close>

definition order_by_created_at_desc :: "digest list \<Rightarrow> digest list" where
  "order_by_created_at_desc rows = sort_key (\<lambda>d. - micros (created_at d)) rows"

definition digest_dict :: "digest \<Rightarrow> digest" where
  "digest_dict d =
     \<lparr>dg_id = dg_id d, article_type = article_type d, article_id = article_id d,
      dg_url = dg_url d, dg_title = dg_title d, summary = summary d,
      created_at = created_at d\<rparr>"

definition get_recent_digests :: "store \<Rightarrow> int \<Rightarrow> int \<Rightarrow> error + digest list" where
  "get_recent_digests st now hours =
     (case timedelta_hours hours of
        Inl e \<Rightarrow> Inl e
      | Inr delta \<Rightarrow>
          (case datetime_sub (Aware now) delta of
             Inl e \<Rightarrow> Inl e
           | Inr cutoff_time \<Rightarrow>
               Inr (map digest_dict
                     (order_by_created_at_desc
                        (filter (\<lambda>d. micros cutoff_time \<le> micros (created_at d)) (digests st))))))"

subsection \<open>Sequences of repository calls\<close>

text \<open>
  One call of a repository method with its arguments. A call that raises leaves the
  database as it was (the failed commit stores nothing); the three read methods never
  change it.
\<close>

datatype call =
    CreateYoutubeVideo string string string string datetime string "string option"
  | CreateOpenaiArticle string string string datetime string "string option"
  | CreateAnthropicArticle string string string datetime string "string option"
  | BulkCreateYoutubeVideos "video_dict list"
  | BulkCreateOpenaiArticles "article_dict list"
  | BulkCreateAnthropicArticles "article_dict list"
  | GetAnthropicArticlesWithoutMarkdown "nat option"
  | UpdateAnthropicArticleMarkdown string string
  | GetYoutubeVideosWithoutTranscript "nat option"
  | UpdateYoutubeVideoTranscript string string
  | GetArticlesWithoutDigest "int option"
  | CreateDigest int string string string string string "datetime option"
  | GetRecentDigests int int

definition after :: "store \<Rightarrow> error + (store \<times> 'a) \<Rightarrow> store" where
  "after st r = (case r of Inl e \<Rightarrow> st | Inr (st', x) \<Rightarrow> st')"

fun perform :: "store \<Rightarrow> call \<Rightarrow> store" where
  "perform st (CreateYoutubeVideo vid title url channel published description tr) =
     after st (create_youtube_video st vid title url channel published description tr)"
| "perform st (CreateOpenaiArticle guid title url published description category) =
     after st (create_openai_article st guid title url published description category)"
| "perform st (CreateAnthropicArticle guid title url published description category) =
     after st (create_anthropic_article st guid title url published description category)"
| "perform st (BulkCreateYoutubeVideos videos) = after st (bulk_create_youtube_videos st videos)"
| "perform st (BulkCreateOpenaiArticles articles) =
     after st (bulk_create_openai_articles st articles)"
| "perform st (BulkCreateAnthropicArticles articles) =
     after st (bulk_create_anthropic_articles st articles)"
| "perform st (GetAnthropicArticlesWithoutMarkdown limit) = st"
| "perform st (UpdateAnthropicArticleMarkdown guid md) =
     fst (update_anthropic_article_markdown st guid md)"
| "perform st (GetYoutubeVideosWithoutTranscript limit) = st"
| "perform st (UpdateYoutubeVideoTranscript vid tr) =
     fst (update_youtube_video_transcript st vid tr)"
| "perform st (GetArticlesWithoutDigest limit) = st"
| "perform st (CreateDigest now atype aid url title summ published_at) =
     after st (create_digest st now atype aid url title summ published_at)"
| "perform st (GetRecentDigests now hours) = st"

definition perform_all :: "store \<Rightarrow> call list \<Rightarrow> store" where
  "perform_all st calls = fold (\<lambda>c s. perform s c) calls st"

subsection \<open>The specification's vocabulary\<close>

text \<open>
  The specification derives a digest's id from the key of the item it summarises,
  \<open>sourceType + ":" + sourceId\<close>, and calls an item digested when the ledger holds a
  record with that id. \<open>has_digest\<close> says so for the records of the ledger, each
  taken with the id its own \<open>article_type\<close> and \<open>article_id\<close> give.
\<close>

definition has_digest :: "store \<Rightarrow> string \<Rightarrow> string \<Rightarrow> bool" where
  "has_digest st source_type source_id =
     (source_type @ '':'' @ source_id
        \<in> set (map (\<lambda>d. article_type d @ '':'' @ article_id d) (digests st)))"

subsection \<open>Sample data\<close>

text \<open>
  A database with every kind of row the pending-work queries tell apart: videos
  without a transcript, with one, marked unavailable, and already digested; articles
  of both feeds, pending and digested. \<open>noon\<close> is 2026-11-03T12:00:00Z.
\<close>

definition noon :: int where
  "noon = 63929304000000000"

definition hour :: int where
  "hour = 3600000000"

definition video :: "string \<Rightarrow> string option \<Rightarrow> youtube_video" where
  "video vid tr =
     \<lparr>video_id = vid, yt_title = ''Video '' @ vid,
      yt_url = ''https://www.youtube.com/watch?v='' @ vid, channel_id = ''UC01'',
      yt_published_at = Aware (noon - 30 * hour), yt_description = ''About '' @ vid,
      transcript = tr\<rparr>"

definition openai_post :: "string \<Rightarrow> openai_article" where
  "openai_post guid =
     \<lparr>oa_guid = guid, oa_title = ''Post '' @ guid, oa_url = ''https://openai.com/'' @ guid,
      oa_published_at = Aware (noon - 20 * hour), oa_description = ''Summary of '' @ guid,
      oa_category = None\<rparr>"

definition anthropic_post :: "string \<Rightarrow> string option \<Rightarrow> anthropic_article" where
  "anthropic_post guid md =
     \<lparr>an_guid = guid, an_title = ''News '' @ guid,
      an_url = ''https://www.anthropic.com/'' @ guid,
      an_published_at = Aware (noon - 10 * hour), an_description = ''Teaser of '' @ guid,
      an_category = Some ''news'', markdown = md\<rparr>"

definition digest_of :: "string \<Rightarrow> string \<Rightarrow> int \<Rightarrow> digest" where
  "digest_of atype aid created =
     \<lparr>dg_id = atype @ '':'' @ aid, article_type = atype, article_id = aid,
      dg_url = ''https://example.org/'' @ aid, dg_title = ''Digest of '' @ aid,
      summary = ''In short.'', created_at = Aware created\<rparr>"

definition sample :: store where
  "sample =
     \<lparr>unique_keys = True,
      youtube_videos =
        [video ''v1'' None, video ''v2'' (Some ''transcript text''),
         video ''v3'' (Some ''__UNAVAILABLE__''), video ''v4'' (Some ''an older talk'')],
      openai_articles = [openai_post ''a1'', openai_post ''a2''],
      anthropic_articles =
        [anthropic_post ''b1'' None, anthropic_post ''b2'' (Some ''# Long form''),
         anthropic_post ''b3'' (Some ''# Older'')],
      digests =
        [digest_of ''youtube'' ''v4'' (noon - 30 * hour),
         digest_of ''openai'' ''a2'' (noon - 2 * hour),
         digest_of ''anthropic'' ''b3'' (noon - 10 * hour)]\<rparr>"

text \<open>A database whose only video has an empty transcript and a description.\<close>

definition empty_transcript_store :: store where
  "empty_transcript_store =
     \<lparr>unique_keys = True,
      youtube_videos =
        [\<lparr>video_id = ''e1'', yt_title = ''Silent film'', yt_url = ''https://youtu.be/e1'',
          channel_id = ''UC01'', yt_published_at = Aware noon,
          yt_description = ''A film without speech'', transcript = Some ''''\<rparr>],
      openai_articles = [], anthropic_articles = [], digests = []\<rparr>"

text \<open>An empty database, and the same after a video was registered under the empty key.\<close>

definition empty_store :: store where
  "empty_store =
     \<lparr>unique_keys = True, youtube_videos = [], openai_articles = [],
      anthropic_articles = [], digests = []\<rparr>"

definition keyless_video :: youtube_video where
  "keyless_video =
     \<lparr>video_id = '''', yt_title = ''Untitled'', yt_url = ''https://youtu.be/'',
      channel_id = ''UC01'', yt_published_at = Aware noon, yt_description = '''',
      transcript = None\<rparr>"

definition keyless_store :: store where
  "keyless_store = empty_store\<lparr>youtube_videos := [keyless_video]\<rparr>"

text \<open>
  A key is settled in the video table when a row carries it and no row that carries it
  lacks a transcript: the videos of that key are no stage-two work any more.
\<close>

definition settled :: "string \<Rightarrow> store \<Rightarrow> bool" where
  "settled vid st =
     (vid \<in> set (map video_id (youtube_videos st))
      \<and> vid \<notin> set (map video_id (filter (\<lambda>v. transcript v = None) (youtube_videos st))))"

text \<open>
  Calls a producer could make after video v1 was marked unavailable: it registers v1
  again, alone and in a batch, attaches a transcript to another video, and the
  summarisation driver records a digest.
\<close>

definition later_calls :: "call list" where
  "later_calls =
     [CreateYoutubeVideo ''v1'' ''Video v1'' ''https://www.youtube.com/watch?v=v1'' ''UC01''
        (Aware noon) ''About v1'' None,
      BulkCreateYoutubeVideos
        [\<lparr>vd_video_id = ''v1'', vd_title = ''Video v1'',
          vd_url = ''https://www.youtube.com/watch?v=v1'', vd_channel_id = None,
          vd_published_at = Aware noon, vd_description = None, vd_transcript = None\<rparr>,
         \<lparr>vd_video_id = ''v5'', vd_title = ''Video v5'',
          vd_url = ''https://www.youtube.com/watch?v=v5'', vd_channel_id = Some ''UC01'',
          vd_published_at = Aware noon, vd_description = Some ''About v5'',
          vd_transcript = None\<rparr>],
      UpdateYoutubeVideoTranscript ''v5'' ''words'',
      CreateDigest noon ''youtube'' ''v2'' ''https://www.youtube.com/watch?v=v2''
        ''A digest'' ''In short.'' None,
      GetYoutubeVideosWithoutTranscript (Some 10)]"

text \<open>
  A batch of two dictionaries with the same key, as a feed that lists one entry twice
  gives it, and the empty database without the uniqueness constraint.
\<close>

definition twin_videos :: "video_dict list" where
  "twin_videos =
     [\<lparr>vd_video_id = ''d1'', vd_title = ''Keynote'', vd_url = ''https://youtu.be/d1'',
       vd_channel_id = Some ''UC01'', vd_published_at = Aware noon,
       vd_description = Some ''The keynote'', vd_transcript = None\<rparr>,
      \<lparr>vd_video_id = ''d1'', vd_title = ''Keynote (repost)'', vd_url = ''https://youtu.be/d1'',
       vd_channel_id = Some ''UC01'', vd_published_at = Aware noon,
       vd_description = None, vd_transcript = None\<rparr>]"

definition twin_articles :: "article_dict list" where
  "twin_articles =
     [\<lparr>ad_guid = ''g1'', ad_title = ''Release'', ad_url = ''https://openai.com/g1'',
       ad_published_at = Aware noon, ad_description = Some ''Notes'', ad_category = None\<rparr>,
      \<lparr>ad_guid = ''g1'', ad_title = ''Release'', ad_url = ''https://openai.com/g1'',
       ad_published_at = Aware noon, ad_description = Some ''Notes'', ad_category = None\<rparr>]"

definition unconstrained_store :: store where
  "unconstrained_store = empty_store\<lparr>unique_keys := False\<rparr>"

text \<open>
  The cutoff of \<open>get_recent_digests\<close> exists: the window is a \<^verbatim>\<open>timedelta\<close> and
  the cutoff a \<^verbatim>\<open>datetime\<close> that Python can represent.
\<close>

definition cutoff_in_range :: "int \<Rightarrow> int \<Rightarrow> bool" where
  "cutoff_in_range now hours =
     (- 999999999 \<le> hours div 24 \<and> hours div 24 \<le> 999999999
      \<and> 0 \<le> now - hours * 3600000000 \<and> now - hours * 3600000000 \<le> DATETIME_MAX)"

section \<open>Properties\<close>

lemmas sample_defs =
  sample_def video_def openai_post_def anthropic_post_def digest_of_def noon_def hour_def

subsection \<open>Reading and writing the tables\<close>

lemma query_first_None_key:
  "query_first (\<lambda>r. key r = k) rows = None \<longleftrightarrow> k \<notin> set (map key rows)"
  by (auto simp: query_first_def find_None_iff)

lemma query_first_Some_key:
  "k \<in> set (map key rows) \<Longrightarrow> \<exists>r. query_first (\<lambda>r. key r = k) rows = Some r"
  using query_first_None_key [of key k rows] by (cases "query_first (\<lambda>r. key r = k) rows") auto

lemma add_commit_single:
  "k \<notin> set (map key rows) \<Longrightarrow> key r = k \<Longrightarrow> add_commit uq key [r] rows = Inr (rows @ [r])"
  by (auto simp: add_commit_def)

lemma filter_key_absent:
  "k \<notin> set (map key rows) \<Longrightarrow> filter (\<lambda>x. key x = k) rows = []"
  by (induction rows) auto

lemma create_youtube_video_new:
  assumes "vid \<notin> set (map video_id (youtube_videos st))"
  shows "create_youtube_video st vid title url channel published description tr =
           Inr (st\<lparr>youtube_videos := youtube_videos st @
                  [\<lparr>video_id = vid, yt_title = title, yt_url = url, channel_id = channel,
                    yt_published_at = published, yt_description = description,
                    transcript = tr\<rparr>]\<rparr>,
                Some \<lparr>video_id = vid, yt_title = title, yt_url = url, channel_id = channel,
                      yt_published_at = published, yt_description = description,
                      transcript = tr\<rparr>)"
  using assms
  by (simp add: create_youtube_video_def Let_def query_first_None_key [THEN iffD2] add_commit_single)

lemma create_youtube_video_existing:
  assumes "vid \<in> set (map video_id (youtube_videos st))"
  shows "create_youtube_video st vid title url channel published description tr = Inr (st, None)"
  using query_first_Some_key [OF assms] by (auto simp: create_youtube_video_def)

lemma create_openai_article_new:
  assumes "guid \<notin> set (map oa_guid (openai_articles st))"
  shows "create_openai_article st guid title url published description category =
           Inr (st\<lparr>openai_articles := openai_articles st @
                  [\<lparr>oa_guid = guid, oa_title = title, oa_url = url,
                    oa_published_at = published, oa_description = description,
                    oa_category = category\<rparr>]\<rparr>,
                Some \<lparr>oa_guid = guid, oa_title = title, oa_url = url,
                      oa_published_at = published, oa_description = description,
                      oa_category = category\<rparr>)"
  using assms
  by (simp add: create_openai_article_def Let_def query_first_None_key [THEN iffD2] add_commit_single)

lemma create_openai_article_existing:
  assumes "guid \<in> set (map oa_guid (openai_articles st))"
  shows "create_openai_article st guid title url published description category = Inr (st, None)"
  using query_first_Some_key [OF assms] by (auto simp: create_openai_article_def)

lemma create_anthropic_article_new:
  assumes "guid \<notin> set (map an_guid (anthropic_articles st))"
  shows "create_anthropic_article st guid title url published description category =
           Inr (st\<lparr>anthropic_articles := anthropic_articles st @
                  [\<lparr>an_guid = guid, an_title = title, an_url = url,
                    an_published_at = published, an_description = description,
                    an_category = category, markdown = None\<rparr>]\<rparr>,
                Some \<lparr>an_guid = guid, an_title = title, an_url = url,
                      an_published_at = published, an_description = description,
                      an_category = category, markdown = None\<rparr>)"
  using assms
  by (simp add: create_anthropic_article_def Let_def query_first_None_key [THEN iffD2] add_commit_single)

lemma create_anthropic_article_existing:
  assumes "guid \<in> set (map an_guid (anthropic_articles st))"
  shows "create_anthropic_article st guid title url published description category = Inr (st, None)"
  using query_first_Some_key [OF assms] by (auto simp: create_anthropic_article_def)

lemma scan_eq:
  "scan seen_ids key mk rows articles = articles @ map mk (filter (\<lambda>r. key r \<notin> seen_ids) rows)"
  unfolding scan_def by (induction rows arbitrary: articles) simp_all

lemma seen_ids_eq:
  "fold (\<lambda>d s. insert (f d) s) ds s0 = s0 \<union> set (map f ds)"
  by (induction ds arbitrary: s0) auto

lemma get_articles_without_digest_None:
  "get_articles_without_digest st None =
     map youtube_item
       (filter (\<lambda>v. \<not> has_digest st ''youtube'' (video_id v))
          (filter (\<lambda>v. transcript v \<noteq> None \<and> transcript v \<noteq> Some ''__UNAVAILABLE__'')
             (youtube_videos st)))
     @ map openai_item
         (filter (\<lambda>a. \<not> has_digest st ''openai'' (oa_guid a)) (openai_articles st))
     @ map anthropic_item
         (filter (\<lambda>a. \<not> has_digest st ''anthropic'' (an_guid a))
            (filter (\<lambda>a. markdown a \<noteq> None) (anthropic_articles st)))"
  by (simp add: get_articles_without_digest_def Let_def scan_eq seen_ids_eq has_digest_def)

lemma youtube_item_alt:
  "youtube_item v =
     \<lparr>u_type = ''youtube'', u_id = video_id v, u_title = yt_title v, u_url = yt_url v,
      content = (case transcript v of None \<Rightarrow> yt_description v
                 | Some t \<Rightarrow> if t = [] then yt_description v else t),
      u_published_at = yt_published_at v\<rparr>"
  by (simp add: youtube_item_def or_else_def split: option.splits)

lemma openai_item_alt:
  "openai_item x =
     \<lparr>u_type = ''openai'', u_id = oa_guid x, u_title = oa_title x, u_url = oa_url x,
      content = oa_description x, u_published_at = oa_published_at x\<rparr>"
  by (simp add: openai_item_def or_else_def)

lemma anthropic_item_alt:
  "anthropic_item x =
     \<lparr>u_type = ''anthropic'', u_id = an_guid x, u_title = an_title x, u_url = an_url x,
      content = (case markdown x of None \<Rightarrow> an_description x
                 | Some m \<Rightarrow> if m = [] then an_description x else m),
      u_published_at = an_published_at x\<rparr>"
  by (simp add: anthropic_item_def or_else_def split: option.splits)

lemma pending_member:
  "a \<in> set (get_articles_without_digest st None) \<longleftrightarrow>
     (\<exists>v t. v \<in> set (youtube_videos st) \<and> transcript v = Some t \<and> t \<noteq> UNAVAILABLE
         \<and> \<not> has_digest st ''youtube'' (video_id v) \<and> a = youtube_item v)
     \<or> (\<exists>x. x \<in> set (openai_articles st) \<and> \<not> has_digest st ''openai'' (oa_guid x)
         \<and> a = openai_item x)
     \<or> (\<exists>x m. x \<in> set (anthropic_articles st) \<and> markdown x = Some m
         \<and> \<not> has_digest st ''anthropic'' (an_guid x) \<and> a = anthropic_item x)"
  unfolding get_articles_without_digest_None by (auto simp: UNAVAILABLE_def)

lemma created_at_utc:
  "(if tzinfo_is_None p then replace_tzinfo_utc p else p) = Aware (micros p)"
  by (cases p) (simp_all add: tzinfo_is_None_def replace_tzinfo_utc_def)

lemma create_digest_new:
  assumes "atype @ '':'' @ aid \<notin> set (map dg_id (digests st))"
  shows "create_digest st now atype aid url title summ pub =
           Inr (st\<lparr>digests := digests st @
                  [\<lparr>dg_id = atype @ '':'' @ aid, article_type = atype, article_id = aid,
                    dg_url = url, dg_title = title, summary = summ,
                    created_at = (case pub of None \<Rightarrow> Aware now | Some p \<Rightarrow> Aware (micros p))\<rparr>]\<rparr>,
                Some \<lparr>dg_id = atype @ '':'' @ aid, article_type = atype, article_id = aid,
                      dg_url = url, dg_title = title, summary = summ,
                      created_at = (case pub of None \<Rightarrow> Aware now | Some p \<Rightarrow> Aware (micros p))\<rparr>)"
  using assms
  by (simp add: create_digest_def Let_def query_first_None_key [THEN iffD2] add_commit_single
      created_at_utc split: option.splits)

lemma create_digest_existing:
  assumes "atype @ '':'' @ aid \<in> set (map dg_id (digests st))"
  shows "create_digest st now atype aid url title summ pub = Inr (st, None)"
  using query_first_Some_key [OF assms] by (auto simp: create_digest_def)

lemma update_first_find:
  "find p rows = Some v \<Longrightarrow> (\<And>x. p x \<Longrightarrow> p (f x)) \<Longrightarrow>
     find p (update_first p f rows) = Some (f v)"
  by (induction rows) (auto split: if_splits)

lemma update_first_others:
  "(\<And>x. p x \<Longrightarrow> p (f x)) \<Longrightarrow>
     filter (\<lambda>r. \<not> p r) (update_first p f rows) = filter (\<lambda>r. \<not> p r) rows"
  by (induction rows) auto

lemma length_update_first: "length (update_first p f rows) = length rows"
  by (induction rows) auto

lemma map_key_update_first:
  "(\<And>x. key (f x) = key x) \<Longrightarrow> map key (update_first p f rows) = map key rows"
  by (induction rows) auto

lemma update_youtube_video_transcript_found:
  assumes "query_first (\<lambda>r. video_id r = vid) (youtube_videos st) = Some v"
  shows "update_youtube_video_transcript st vid tr =
           (st\<lparr>youtube_videos := update_first (\<lambda>v. video_id v = vid)
                 (\<lambda>v. v\<lparr>transcript := Some tr\<rparr>) (youtube_videos st)\<rparr>, True)"
  using assms by (simp add: update_youtube_video_transcript_def)

lemma update_youtube_video_transcript_missing:
  assumes "vid \<notin> set (map video_id (youtube_videos st))"
  shows "update_youtube_video_transcript st vid tr = (st, False)"
  using assms
  by (simp add: update_youtube_video_transcript_def query_first_None_key [THEN iffD2])

lemma update_anthropic_article_markdown_found:
  assumes "query_first (\<lambda>r. an_guid r = guid) (anthropic_articles st) = Some a"
  shows "update_anthropic_article_markdown st guid md =
           (st\<lparr>anthropic_articles := update_first (\<lambda>a. an_guid a = guid)
                 (\<lambda>a. a\<lparr>markdown := Some md\<rparr>) (anthropic_articles st)\<rparr>, True)"
  using assms by (simp add: update_anthropic_article_markdown_def)

lemma update_anthropic_article_markdown_missing:
  assumes "guid \<notin> set (map an_guid (anthropic_articles st))"
  shows "update_anthropic_article_markdown st guid md = (st, False)"
  using assms
  by (simp add: update_anthropic_article_markdown_def query_first_None_key [THEN iffD2])

lemma update_youtube_video_transcript_writes:
  assumes "vid \<in> set (map video_id (youtube_videos st))"
  shows "\<exists>v. query_first (\<lambda>r. video_id r = vid) (youtube_videos st) = Some v
           \<and> query_first (\<lambda>r. video_id r = vid)
                (youtube_videos (fst (update_youtube_video_transcript st vid tr)))
              = Some (v\<lparr>transcript := Some tr\<rparr>)"
proof -
  obtain v where v: "query_first (\<lambda>r. video_id r = vid) (youtube_videos st) = Some v"
    using query_first_Some_key [OF assms] by blast
  then have "find (\<lambda>r. video_id r = vid) (youtube_videos st) = Some v"
    by (simp add: query_first_def)
  then have "query_first (\<lambda>r. video_id r = vid)
      (update_first (\<lambda>v. video_id v = vid) (\<lambda>v. v\<lparr>transcript := Some tr\<rparr>) (youtube_videos st))
      = Some (v\<lparr>transcript := Some tr\<rparr>)"
    unfolding query_first_def by (rule update_first_find) simp
  with v show ?thesis
    by (simp add: update_youtube_video_transcript_found [OF v])
qed

lemma update_anthropic_article_markdown_writes:
  assumes "guid \<in> set (map an_guid (anthropic_articles st))"
  shows "\<exists>a. query_first (\<lambda>r. an_guid r = guid) (anthropic_articles st) = Some a
           \<and> query_first (\<lambda>r. an_guid r = guid)
                (anthropic_articles (fst (update_anthropic_article_markdown st guid md)))
              = Some (a\<lparr>markdown := Some md\<rparr>)"
proof -
  obtain a where a: "query_first (\<lambda>r. an_guid r = guid) (anthropic_articles st) = Some a"
    using query_first_Some_key [OF assms] by blast
  then have "find (\<lambda>r. an_guid r = guid) (anthropic_articles st) = Some a"
    by (simp add: query_first_def)
  then have "query_first (\<lambda>r. an_guid r = guid)
      (update_first (\<lambda>a. an_guid a = guid) (\<lambda>a. a\<lparr>markdown := Some md\<rparr>) (anthropic_articles st))
      = Some (a\<lparr>markdown := Some md\<rparr>)"
    unfolding query_first_def by (rule update_first_find) simp
  with a show ?thesis
    by (simp add: update_anthropic_article_markdown_found [OF a])
qed

lemma new_rows_eq:
  "new_rows key dkey mk rows ds = map mk (filter (\<lambda>d. dkey d \<notin> set (map key rows)) ds)"
proof (induction ds)
  case Nil
  show ?case by simp
next
  case (Cons d ds)
  show ?case
  proof (cases "dkey d \<in> set (map key rows)")
    case True
    then obtain r where "query_first (\<lambda>r. key r = dkey d) rows = Some r"
      using query_first_Some_key by fastforce
    with True Cons show ?thesis by simp
  next
    case False
    then have "query_first (\<lambda>r. key r = dkey d) rows = None"
      by (simp add: query_first_None_key)
    with False Cons show ?thesis by simp
  qed
qed

lemma new_rows_fresh:
  assumes "\<And>d. key (mk d) = dkey d"
  shows "set (map key (new_rows key dkey mk rows ds)) \<inter> set (map key rows) = {}"
  using assms by (auto simp: new_rows_eq)

lemma add_commit_cases:
  "add_commit uq key new rows = Inl IntegrityError \<or> add_commit uq key new rows = Inr (rows @ new)"
  by (simp add: add_commit_def)

lemma after_Inr: "after st (Inr (st', x)) = st'"
  by (simp add: after_def)

lemma youtube_after_create:
  "\<exists>new. youtube_videos (after st (create_youtube_video st vid t u c p d tr))
           = youtube_videos st @ new
         \<and> set (map video_id new) \<inter> set (map video_id (youtube_videos st)) = {}"
proof (cases "vid \<in> set (map video_id (youtube_videos st))")
  case True
  then show ?thesis by (simp add: create_youtube_video_existing after_Inr)
next
  case False
  then show ?thesis by (simp add: create_youtube_video_new after_Inr)
qed

lemma youtube_after_bulk:
  "\<exists>new. youtube_videos (after st (bulk_create_youtube_videos st videos))
           = youtube_videos st @ new
         \<and> set (map video_id new) \<inter> set (map video_id (youtube_videos st)) = {}"
proof -
  let ?new = "new_rows video_id vd_video_id youtube_video_of (youtube_videos st) videos"
  have fresh: "set (map video_id ?new) \<inter> set (map video_id (youtube_videos st)) = {}"
    by (rule new_rows_fresh) (simp add: youtube_video_of_def)
  consider "youtube_videos (after st (bulk_create_youtube_videos st videos)) = youtube_videos st"
    | "youtube_videos (after st (bulk_create_youtube_videos st videos))
         = youtube_videos st @ ?new"
    using add_commit_cases [of "unique_keys st" video_id ?new "youtube_videos st"]
    by (auto simp: bulk_create_youtube_videos_def Let_def after_def)
  then show ?thesis
  proof cases
    case 1
    then show ?thesis by (intro exI [of _ "[]"]) simp
  next
    case 2
    with fresh show ?thesis by (intro exI [of _ ?new]) simp
  qed
qed

lemma youtube_after_create_openai:
  "youtube_videos (after st (create_openai_article st g t u p d cat)) = youtube_videos st"
proof (cases "g \<in> set (map oa_guid (openai_articles st))")
  case True
  then show ?thesis by (simp add: create_openai_article_existing after_Inr)
next
  case False
  then show ?thesis by (simp add: create_openai_article_new after_Inr)
qed

lemma youtube_after_create_anthropic:
  "youtube_videos (after st (create_anthropic_article st g t u p d cat)) = youtube_videos st"
proof (cases "g \<in> set (map an_guid (anthropic_articles st))")
  case True
  then show ?thesis by (simp add: create_anthropic_article_existing after_Inr)
next
  case False
  then show ?thesis by (simp add: create_anthropic_article_new after_Inr)
qed

lemma youtube_after_create_digest:
  "youtube_videos (after st (create_digest st now atype aid url title summ pub))
     = youtube_videos st"
proof (cases "atype @ '':'' @ aid \<in> set (map dg_id (digests st))")
  case True
  then show ?thesis by (simp add: create_digest_existing after_Inr)
next
  case False
  then show ?thesis by (simp add: create_digest_new after_Inr)
qed

lemma youtube_after_bulk_openai:
  "youtube_videos (after st (bulk_create_openai_articles st articles)) = youtube_videos st"
  using add_commit_cases [of "unique_keys st" oa_guid
      "new_rows oa_guid ad_guid openai_article_of (openai_articles st) articles"
      "openai_articles st"]
  by (auto simp: bulk_create_openai_articles_def Let_def after_def)

lemma youtube_after_bulk_anthropic:
  "youtube_videos (after st (bulk_create_anthropic_articles st articles)) = youtube_videos st"
  using add_commit_cases [of "unique_keys st" an_guid
      "new_rows an_guid ad_guid anthropic_article_of (anthropic_articles st) articles"
      "anthropic_articles st"]
  by (auto simp: bulk_create_anthropic_articles_def Let_def after_def)

lemma youtube_after_update_markdown:
  "youtube_videos (fst (update_anthropic_article_markdown st g md)) = youtube_videos st"
  by (simp add: update_anthropic_article_markdown_def split: option.splits)

lemma settled_append:
  assumes "settled vid st"
    and "youtube_videos st' = youtube_videos st @ new"
    and "set (map video_id new) \<inter> set (map video_id (youtube_videos st)) = {}"
  shows "settled vid st'"
  using assms by (auto simp: settled_def)

lemma settled_same:
  "youtube_videos st' = youtube_videos st \<Longrightarrow> settled vid st \<Longrightarrow> settled vid st'"
  by (simp add: settled_def)

lemma pending_after_update_first:
  "set (map video_id (filter (\<lambda>v. transcript v = None)
          (update_first p (\<lambda>v. v\<lparr>transcript := Some tr\<rparr>) rows)))
     \<subseteq> set (map video_id (filter (\<lambda>v. transcript v = None) rows))"
  by (induction rows) auto

lemma settled_update:
  assumes "settled vid st"
  shows "settled vid (fst (update_youtube_video_transcript st vid' tr))"
proof (cases "query_first (\<lambda>v. video_id v = vid') (youtube_videos st)")
  case None
  with assms show ?thesis by (simp add: update_youtube_video_transcript_def)
next
  case (Some v)
  have "map video_id (update_first (\<lambda>v. video_id v = vid') (\<lambda>v. v\<lparr>transcript := Some tr\<rparr>)
          (youtube_videos st)) = map video_id (youtube_videos st)"
    by (rule map_key_update_first) simp
  with assms Some pending_after_update_first [of "\<lambda>v. video_id v = vid'" tr "youtube_videos st"]
  show ?thesis
    by (auto simp: update_youtube_video_transcript_def settled_def)
qed

lemma settled_perform:
  assumes "settled vid st"
  shows "settled vid (perform st c)"
proof (cases c)
  case (CreateYoutubeVideo x1 x2 x3 x4 x5 x6 x7)
  obtain new where
    "youtube_videos (after st (create_youtube_video st x1 x2 x3 x4 x5 x6 x7))
       = youtube_videos st @ new"
    and "set (map video_id new) \<inter> set (map video_id (youtube_videos st)) = {}"
    using youtube_after_create by blast
  then have "settled vid (after st (create_youtube_video st x1 x2 x3 x4 x5 x6 x7))"
    by (rule settled_append [OF assms])
  with CreateYoutubeVideo show ?thesis by simp
next
  case (BulkCreateYoutubeVideos videos)
  obtain new where
    "youtube_videos (after st (bulk_create_youtube_videos st videos)) = youtube_videos st @ new"
    and "set (map video_id new) \<inter> set (map video_id (youtube_videos st)) = {}"
    using youtube_after_bulk by blast
  then have "settled vid (after st (bulk_create_youtube_videos st videos))"
    by (rule settled_append [OF assms])
  with BulkCreateYoutubeVideos show ?thesis by simp
next
  case (CreateOpenaiArticle x1 x2 x3 x4 x5 x6)
  with assms show ?thesis by (simp add: settled_same [OF youtube_after_create_openai])
next
  case (CreateAnthropicArticle x1 x2 x3 x4 x5 x6)
  with assms show ?thesis by (simp add: settled_same [OF youtube_after_create_anthropic])
next
  case (BulkCreateOpenaiArticles x)
  with assms show ?thesis by (simp add: settled_same [OF youtube_after_bulk_openai])
next
  case (BulkCreateAnthropicArticles x)
  with assms show ?thesis by (simp add: settled_same [OF youtube_after_bulk_anthropic])
next
  case (UpdateAnthropicArticleMarkdown x1 x2)
  with assms show ?thesis by (simp add: settled_same [OF youtube_after_update_markdown])
next
  case (UpdateYoutubeVideoTranscript x1 x2)
  with assms show ?thesis by (simp add: settled_update)
next
  case (CreateDigest x1 x2 x3 x4 x5 x6 x7)
  with assms show ?thesis by (simp add: settled_same [OF youtube_after_create_digest])
qed (use assms in simp_all)

lemma settled_perform_all: "settled vid st \<Longrightarrow> settled vid (perform_all st calls)"
  unfolding perform_all_def
  by (induction calls arbitrary: st) (simp_all add: settled_perform)

lemma update_first_settles:
  "length (filter (\<lambda>v. video_id v = vid) rows) \<le> 1 \<Longrightarrow>
     vid \<notin> set (map video_id (filter (\<lambda>v. transcript v = None)
        (update_first (\<lambda>v. video_id v = vid) (\<lambda>v. v\<lparr>transcript := Some tr\<rparr>) rows)))"
proof (induction rows)
  case Nil
  show ?case by simp
next
  case (Cons r rows)
  show ?case
  proof (cases "video_id r = vid")
    case True
    with Cons.prems have "filter (\<lambda>v. video_id v = vid) rows = []" by simp
    then have "\<forall>x \<in> set rows. video_id x \<noteq> vid" by (simp add: filter_empty_conv)
    with True show ?thesis by auto
  next
    case False
    with Cons show ?thesis by auto
  qed
qed

lemma settled_after_update:
  assumes "length (filter (\<lambda>v. video_id v = vid) (youtube_videos st)) \<le> 1"
    and "update_youtube_video_transcript st vid tr = (st1, True)"
  shows "settled vid st1"
proof (cases "query_first (\<lambda>v. video_id v = vid) (youtube_videos st)")
  case None
  with assms(2) show ?thesis by (simp add: update_youtube_video_transcript_def)
next
  case (Some v)
  then have "vid \<in> set (map video_id (youtube_videos st))"
    using query_first_None_key [of video_id vid "youtube_videos st"] by auto
  moreover have "map video_id (update_first (\<lambda>v. video_id v = vid)
        (\<lambda>v. v\<lparr>transcript := Some tr\<rparr>) (youtube_videos st)) = map video_id (youtube_videos st)"
    by (rule map_key_update_first) simp
  moreover have "st1 = st\<lparr>youtube_videos := update_first (\<lambda>v. video_id v = vid)
        (\<lambda>v. v\<lparr>transcript := Some tr\<rparr>) (youtube_videos st)\<rparr>"
    using assms(2) Some by (simp add: update_youtube_video_transcript_def)
  ultimately show ?thesis
    using update_first_settles [OF assms(1), of tr] by (simp add: settled_def)
qed

lemma set_query_limit: "set (query_limit limit rows) \<subseteq> set rows"
  by (auto simp: query_limit_def split: option.splits dest: in_set_takeD)

lemma settled_not_pending:
  assumes "settled vid st"
  shows "vid \<notin> set (map video_id (get_youtube_videos_without_transcript st limit))"
proof -
  have "set (get_youtube_videos_without_transcript st limit)
          \<subseteq> set (filter (\<lambda>v. transcript v = None) (youtube_videos st))"
    unfolding get_youtube_videos_without_transcript_def by (rule set_query_limit)
  then have "video_id ` set (get_youtube_videos_without_transcript st limit)
          \<subseteq> video_id ` set (filter (\<lambda>v. transcript v = None) (youtube_videos st))"
    by (rule image_mono)
  moreover have "vid \<notin> video_id ` set (filter (\<lambda>v. transcript v = None) (youtube_videos st))"
    using assms unfolding settled_def set_map by (rule conjunct2)
  ultimately show ?thesis
    unfolding set_map by (rule contra_subsetD)
qed

lemma bulk_create_youtube_videos_distinct_batch:
  assumes "distinct (map vd_video_id videos)"
  shows "bulk_create_youtube_videos st videos =
           Inr (st\<lparr>youtube_videos := youtube_videos st @ map youtube_video_of
                     (filter (\<lambda>v. vd_video_id v \<notin> set (map video_id (youtube_videos st))) videos)\<rparr>,
                length (filter (\<lambda>v. vd_video_id v \<notin> set (map video_id (youtube_videos st))) videos))"
proof -
  let ?fresh = "filter (\<lambda>v. vd_video_id v \<notin> set (map video_id (youtube_videos st))) videos"
  have keys: "map video_id (map youtube_video_of ?fresh) = map vd_video_id ?fresh"
    by (simp add: youtube_video_of_def)
  have "distinct (map vd_video_id ?fresh)"
    using assms by (rule distinct_map_filter)
  then have d: "distinct (map video_id (map youtube_video_of ?fresh))"
    by (simp only: keys)
  have a: "list_all (\<lambda>r. video_id r \<notin> set (map video_id (youtube_videos st)))
             (map youtube_video_of ?fresh)"
    by (simp add: list_all_iff youtube_video_of_def)
  have "add_commit (unique_keys st) video_id (map youtube_video_of ?fresh) (youtube_videos st)
          = Inr (youtube_videos st @ map youtube_video_of ?fresh)"
    using d a by (simp add: add_commit_def)
  then show ?thesis
    by (simp add: bulk_create_youtube_videos_def new_rows_eq Let_def)
qed

lemma digest_dict_id: "digest_dict d = d"
  by (simp add: digest_dict_def)

lemma map_digest_dict: "map digest_dict rows = rows"
  by (rule map_idI) (rule digest_dict_id)

lemma mset_order_by: "mset (order_by_created_at_desc rows) = mset rows"
  by (simp add: order_by_created_at_desc_def)

lemma sorted_order_by:
  "sorted_wrt (\<lambda>a b. micros (created_at b) \<le> micros (created_at a))
     (order_by_created_at_desc rows)"
proof -
  have "sorted (map (\<lambda>d. - micros (created_at d)) (order_by_created_at_desc rows))"
    unfolding order_by_created_at_desc_def by (rule sorted_sort_key)
  then show ?thesis by (simp add: sorted_map)
qed

lemma get_recent_digests_in_range:
  assumes "cutoff_in_range now hours"
  shows "get_recent_digests st now hours =
           Inr (order_by_created_at_desc
                  (filter (\<lambda>d. now - hours * 3600000000 \<le> micros (created_at d)) (digests st)))"
  using assms
  by (simp add: cutoff_in_range_def get_recent_digests_def timedelta_hours_def
      datetime_sub_def Let_def map_digest_dict not_less)

lemma get_recent_digests_out_of_range:
  assumes "\<not> cutoff_in_range now hours"
  shows "get_recent_digests st now hours = Inl OverflowError"
  using assms
  by (auto simp: cutoff_in_range_def get_recent_digests_def timedelta_hours_def
      datetime_sub_def Let_def)

lemma nonpositive_in_range:
  assumes "hours \<le> 0" and "0 \<le> now" and "now - hours * 3600000000 \<le> DATETIME_MAX"
  shows "cutoff_in_range now hours"
proof -
  have "- hours * 3600000000 \<le> 315537897599999999"
    using assms by (simp add: DATETIME_MAX_def)
  then have "- 87649416 \<le> hours" by simp
  then have "- 999999999 \<le> hours div 24" by simp
  moreover have "hours div 24 \<le> 999999999" using assms(1) by simp
  moreover have "0 \<le> now - hours * 3600000000" using assms(1,2) by simp
  ultimately show ?thesis using assms(3) by (simp add: cutoff_in_range_def)
qed

lemma set_slice_to: "set (slice_to xs n) \<subseteq> set xs"
  by (auto simp: slice_to_def dest: in_set_takeD)

lemma get_articles_without_digest_limit:
  "get_articles_without_digest st limit =
     (case limit of
        None \<Rightarrow> get_articles_without_digest st None
      | Some n \<Rightarrow> if n \<noteq> 0 then slice_to (get_articles_without_digest st None) n
                  else get_articles_without_digest st None)"
  by (simp add: get_articles_without_digest_def Let_def split: option.splits)

lemma pending_limit_subset:
  "set (get_articles_without_digest st limit) \<subseteq> set (get_articles_without_digest st None)"
proof (cases limit)
  case None
  then show ?thesis by simp
next
  case (Some n)
  show ?thesis
    unfolding Some get_articles_without_digest_limit [of st "Some n"]
    using set_slice_to [of "get_articles_without_digest st None" n] by simp
qed

lemma unique_keys_after:
  "unique_keys (after st (create_youtube_video st vid t u c p d tr)) = unique_keys st"
  "unique_keys (after st (create_openai_article st g t u p d cat)) = unique_keys st"
  "unique_keys (after st (create_anthropic_article st g t u p d cat)) = unique_keys st"
  "unique_keys (after st (bulk_create_youtube_videos st videos)) = unique_keys st"
  "unique_keys (after st (bulk_create_openai_articles st articles)) = unique_keys st"
  "unique_keys (after st (bulk_create_anthropic_articles st articles)) = unique_keys st"
  "unique_keys (after st (create_digest st now atype aid url title summ pub)) = unique_keys st"
  "unique_keys (fst (update_youtube_video_transcript st vid tr')) = unique_keys st"
  "unique_keys (fst (update_anthropic_article_markdown st g md)) = unique_keys st"
  by (simp_all add: after_def create_youtube_video_def create_openai_article_def
      create_anthropic_article_def bulk_create_youtube_videos_def
      bulk_create_openai_articles_def bulk_create_anthropic_articles_def create_digest_def
      update_youtube_video_transcript_def update_anthropic_article_markdown_def Let_def
      split: option.splits sum.splits)

lemma unique_keys_perform: "unique_keys (perform st c) = unique_keys st"
  by (cases c) (simp_all add: unique_keys_after)

lemma distinct_after_bulk:
  assumes "unique_keys st" and "distinct (map video_id (youtube_videos st))"
  shows "distinct (map video_id (youtube_videos (after st (bulk_create_youtube_videos st videos))))"
proof -
  let ?new = "new_rows video_id vd_video_id youtube_video_of (youtube_videos st) videos"
  have fresh: "set (map video_id ?new) \<inter> set (map video_id (youtube_videos st)) = {}"
    by (rule new_rows_fresh) (simp add: youtube_video_of_def)
  show ?thesis
  proof (cases "distinct (map video_id ?new)")
    case True
    then have "distinct (map video_id (youtube_videos st @ ?new))"
      using assms(2) fresh by auto
    then show ?thesis
      using assms(2) add_commit_cases [of "unique_keys st" video_id ?new "youtube_videos st"]
      by (auto simp: bulk_create_youtube_videos_def Let_def after_def)
  next
    case False
    then have "add_commit (unique_keys st) video_id ?new (youtube_videos st)
                 = Inl IntegrityError"
      using assms(1) by (simp add: add_commit_def)
    then show ?thesis
      using assms(2) by (simp add: bulk_create_youtube_videos_def Let_def after_def)
  qed
qed

lemma distinct_after_create:
  assumes "distinct (map video_id (youtube_videos st))"
  shows "distinct (map video_id
           (youtube_videos (after st (create_youtube_video st vid t u c p d tr))))"
proof (cases "vid \<in> set (map video_id (youtube_videos st))")
  case True
  with assms show ?thesis by (simp add: create_youtube_video_existing after_Inr)
next
  case False
  with assms show ?thesis by (simp add: create_youtube_video_new after_Inr)
qed

lemma distinct_keys_perform:
  assumes "unique_keys st" and "distinct (map video_id (youtube_videos st))"
  shows "distinct (map video_id (youtube_videos (perform st c)))"
proof (cases c)
  case (CreateYoutubeVideo x1 x2 x3 x4 x5 x6 x7)
  with assms(2) show ?thesis by (simp add: distinct_after_create)
next
  case (BulkCreateYoutubeVideos videos)
  with assms show ?thesis by (simp add: distinct_after_bulk)
next
  case (CreateOpenaiArticle x1 x2 x3 x4 x5 x6)
  with assms show ?thesis by (simp add: youtube_after_create_openai)
next
  case (CreateAnthropicArticle x1 x2 x3 x4 x5 x6)
  with assms show ?thesis by (simp add: youtube_after_create_anthropic)
next
  case (BulkCreateOpenaiArticles x)
  with assms show ?thesis by (simp add: youtube_after_bulk_openai)
next
  case (BulkCreateAnthropicArticles x)
  with assms show ?thesis by (simp add: youtube_after_bulk_anthropic)
next
  case (UpdateAnthropicArticleMarkdown x1 x2)
  with assms show ?thesis by (simp add: youtube_after_update_markdown)
next
  case (UpdateYoutubeVideoTranscript x1 x2)
  have "map video_id (youtube_videos (fst (update_youtube_video_transcript st x1 x2)))
          = map video_id (youtube_videos st)"
    by (simp add: update_youtube_video_transcript_def map_key_update_first
        split: option.splits)
  with assms UpdateYoutubeVideoTranscript show ?thesis by simp
next
  case (CreateDigest x1 x2 x3 x4 x5 x6 x7)
  with assms show ?thesis by (simp add: youtube_after_create_digest)
qed (use assms in simp_all)

lemma distinct_keys_perform_all:
  assumes "unique_keys st" and "distinct (map video_id (youtube_videos st))"
  shows "distinct (map video_id (youtube_videos (perform_all st calls)))"
  using assms unfolding perform_all_def
  by (induction calls arbitrary: st) (simp_all add: distinct_keys_perform unique_keys_perform)

lemma distinct_keys_at_most_one:
  "distinct (map key rows) \<Longrightarrow> length (filter (\<lambda>r. key r = k) rows) \<le> 1"
  by (induction rows) (auto simp: filter_key_absent)

subsection \<open>Pending items\<close>

text \<open>
  Claim C1, as amended. For every database, \<open>get_articles_without_digest\<close> without a
  limit returns exactly the ready items that have no digest: an item is returned if
  and only if it is the unified form of a video whose transcript is present and not
  the UNAVAILABLE marker, of any OpenAI article, or of an Anthropic article whose
  markdown is present, and no record of the ledger carries its digest id. The content
  is the transcript, or the description when the transcript is empty; the description
  for an OpenAI article; the markdown, or the description when the markdown is empty.
  With or without a limit, no returned item has a digest.
\<close>

theorem pending_for_digest_exact:
  "(a \<in> set (get_articles_without_digest st None) \<longleftrightarrow>
      (\<exists>v t. v \<in> set (youtube_videos st) \<and> transcript v = Some t \<and> t \<noteq> UNAVAILABLE
          \<and> \<not> has_digest st ''youtube'' (video_id v)
          \<and> a = \<lparr>u_type = ''youtube'', u_id = video_id v, u_title = yt_title v,
                  u_url = yt_url v,
                  content = (if t = [] then yt_description v else t),
                  u_published_at = yt_published_at v\<rparr>)
      \<or> (\<exists>x. x \<in> set (openai_articles st)
          \<and> \<not> has_digest st ''openai'' (oa_guid x)
          \<and> a = \<lparr>u_type = ''openai'', u_id = oa_guid x, u_title = oa_title x,
                  u_url = oa_url x, content = oa_description x,
                  u_published_at = oa_published_at x\<rparr>)
      \<or> (\<exists>x m. x \<in> set (anthropic_articles st) \<and> markdown x = Some m
          \<and> \<not> has_digest st ''anthropic'' (an_guid x)
          \<and> a = \<lparr>u_type = ''anthropic'', u_id = an_guid x, u_title = an_title x,
                  u_url = an_url x,
                  content = (if m = [] then an_description x else m),
                  u_published_at = an_published_at x\<rparr>))
   \<and> (a \<in> set (get_articles_without_digest st limit) \<longrightarrow>
        \<not> has_digest st (u_type a) (u_id a))"
proof
  have "\<not> has_digest st (u_type a) (u_id a)"
    if "a \<in> set (get_articles_without_digest st None)"
    using that unfolding pending_member
    by (auto simp: youtube_item_def openai_item_def anthropic_item_def)
  then show "a \<in> set (get_articles_without_digest st limit) \<longrightarrow>
          \<not> has_digest st (u_type a) (u_id a)"
    using pending_limit_subset [of st limit] by blast
next
  show "a \<in> set (get_articles_without_digest st None) \<longleftrightarrow>
      (\<exists>v t. v \<in> set (youtube_videos st) \<and> transcript v = Some t \<and> t \<noteq> UNAVAILABLE
          \<and> \<not> has_digest st ''youtube'' (video_id v)
          \<and> a = \<lparr>u_type = ''youtube'', u_id = video_id v, u_title = yt_title v,
                  u_url = yt_url v,
                  content = (if t = [] then yt_description v else t),
                  u_published_at = yt_published_at v\<rparr>)
      \<or> (\<exists>x. x \<in> set (openai_articles st)
          \<and> \<not> has_digest st ''openai'' (oa_guid x)
          \<and> a = \<lparr>u_type = ''openai'', u_id = oa_guid x, u_title = oa_title x,
                  u_url = oa_url x, content = oa_description x,
                  u_published_at = oa_published_at x\<rparr>)
      \<or> (\<exists>x m. x \<in> set (anthropic_articles st) \<and> markdown x = Some m
          \<and> \<not> has_digest st ''anthropic'' (an_guid x)
          \<and> a = \<lparr>u_type = ''anthropic'', u_id = an_guid x, u_title = an_title x,
                  u_url = an_url x,
                  content = (if m = [] then an_description x else m),
                  u_published_at = an_published_at x\<rparr>)"
    unfolding pending_member
    by (simp add: youtube_item_alt openai_item_alt anthropic_item_alt
          cong: conj_cong split del: if_split)
qed

text \<open>
  At the sample database: video v2 is returned with its transcript as content, and
  the digested video v4 is not returned.
\<close>

theorem pending_for_digest_exact_witness:
  "\<lparr>u_type = ''youtube'', u_id = ''v2'', u_title = ''Video v2'',
     u_url = ''https://www.youtube.com/watch?v=v2'', content = ''transcript text'',
     u_published_at = Aware 63929196000000000\<rparr>
     \<in> set (get_articles_without_digest sample None)
   \<and> youtube_item (video ''v4'' (Some ''an older talk''))
     \<notin> set (get_articles_without_digest sample None)"
proof -
  have "video ''v2'' (Some ''transcript text'') \<in> set (youtube_videos sample)
      \<and> transcript (video ''v2'' (Some ''transcript text'')) = Some ''transcript text''
      \<and> ''transcript text'' \<noteq> UNAVAILABLE
      \<and> \<not> has_digest sample ''youtube'' (video_id (video ''v2'' (Some ''transcript text'')))
      \<and> \<lparr>u_type = ''youtube'', u_id = ''v2'', u_title = ''Video v2'',
           u_url = ''https://www.youtube.com/watch?v=v2'', content = ''transcript text'',
           u_published_at = Aware 63929196000000000\<rparr>
        = \<lparr>u_type = ''youtube'', u_id = video_id (video ''v2'' (Some ''transcript text'')),
           u_title = yt_title (video ''v2'' (Some ''transcript text'')),
           u_url = yt_url (video ''v2'' (Some ''transcript text'')),
           content = (if ''transcript text'' = [] then yt_description (video ''v2'' (Some ''transcript text''))
                      else ''transcript text''),
           u_published_at = yt_published_at (video ''v2'' (Some ''transcript text''))\<rparr>"
    by (simp add: sample_defs has_digest_def UNAVAILABLE_def)
  then have in_v2: "\<lparr>u_type = ''youtube'', u_id = ''v2'', u_title = ''Video v2'',
     u_url = ''https://www.youtube.com/watch?v=v2'', content = ''transcript text'',
     u_published_at = Aware 63929196000000000\<rparr>
     \<in> set (get_articles_without_digest sample None)"
    using pending_for_digest_exact
      [where a = "\<lparr>u_type = ''youtube'', u_id = ''v2'', u_title = ''Video v2'',
            u_url = ''https://www.youtube.com/watch?v=v2'', content = ''transcript text'',
            u_published_at = Aware 63929196000000000\<rparr>" and st = sample and limit = None]
    by blast
  have "has_digest sample (u_type (youtube_item (video ''v4'' (Some ''an older talk''))))
          (u_id (youtube_item (video ''v4'' (Some ''an older talk''))))"
    by (simp add: sample_defs has_digest_def youtube_item_def)
  then have out_v4: "youtube_item (video ''v4'' (Some ''an older talk''))
     \<notin> set (get_articles_without_digest sample None)"
    using pending_for_digest_exact
      [where a = "youtube_item (video ''v4'' (Some ''an older talk''))" and st = sample
        and limit = None]
    by blast
  show ?thesis using in_v2 out_v4 by (rule conjI)
qed

text \<open>
  Claim C1 as stated fails: a video whose transcript is the empty string is ready
  (present, not UNAVAILABLE) and is returned, but its content is the description, not
  the transcript.
\<close>

theorem pending_video_content_counterexample:
  "map transcript (youtube_videos empty_transcript_store) = [Some '''']
   \<and> map content (get_articles_without_digest empty_transcript_store None)
       = [''A film without speech'']"
  by (simp add: empty_transcript_store_def get_articles_without_digest_def scan_def
      youtube_item_def or_else_def)

subsection \<open>Registering an item twice\<close>

text \<open>
  Claim C2. For every database and every item whose key is not stored yet, the first
  \<open>create_youtube_video\<close> (\<open>create_openai_article\<close>, \<open>create_anthropic_article\<close>)
  returns the created record with the given fields; a second call with the same key,
  whatever its other arguments, returns \<open>None\<close> and leaves the database exactly as the
  first call left it; and exactly one stored row carries the key, the created one.
\<close>

theorem register_twice:
  "(vid \<notin> set (map video_id (youtube_videos st)) \<longrightarrow>
      (\<exists>st1 v. create_youtube_video st vid t u c p d tr = Inr (st1, Some v)
            \<and> v = \<lparr>video_id = vid, yt_title = t, yt_url = u, channel_id = c,
                    yt_published_at = p, yt_description = d, transcript = tr\<rparr>
            \<and> create_youtube_video st1 vid t' u' c' p' d' tr' = Inr (st1, None)
            \<and> filter (\<lambda>r. video_id r = vid) (youtube_videos st1) = [v]))
   \<and> (og \<notin> set (map oa_guid (openai_articles st)) \<longrightarrow>
      (\<exists>st1 a. create_openai_article st og t u p d cat = Inr (st1, Some a)
            \<and> a = \<lparr>oa_guid = og, oa_title = t, oa_url = u, oa_published_at = p,
                    oa_description = d, oa_category = cat\<rparr>
            \<and> create_openai_article st1 og t' u' p' d' cat' = Inr (st1, None)
            \<and> filter (\<lambda>r. oa_guid r = og) (openai_articles st1) = [a]))
   \<and> (ag \<notin> set (map an_guid (anthropic_articles st)) \<longrightarrow>
      (\<exists>st1 a. create_anthropic_article st ag t u p d cat = Inr (st1, Some a)
            \<and> a = \<lparr>an_guid = ag, an_title = t, an_url = u, an_published_at = p,
                    an_description = d, an_category = cat, markdown = None\<rparr>
            \<and> create_anthropic_article st1 ag t' u' p' d' cat' = Inr (st1, None)
            \<and> filter (\<lambda>r. an_guid r = ag) (anthropic_articles st1) = [a]))"
proof (intro conjI impI)
  assume "vid \<notin> set (map video_id (youtube_videos st))"
  then show "\<exists>st1 v. create_youtube_video st vid t u c p d tr = Inr (st1, Some v)
            \<and> v = \<lparr>video_id = vid, yt_title = t, yt_url = u, channel_id = c,
                    yt_published_at = p, yt_description = d, transcript = tr\<rparr>
            \<and> create_youtube_video st1 vid t' u' c' p' d' tr' = Inr (st1, None)
            \<and> filter (\<lambda>r. video_id r = vid) (youtube_videos st1) = [v]"
    by (simp add: create_youtube_video_new create_youtube_video_existing filter_key_absent)
next
  assume "og \<notin> set (map oa_guid (openai_articles st))"
  then show "\<exists>st1 a. create_openai_article st og t u p d cat = Inr (st1, Some a)
            \<and> a = \<lparr>oa_guid = og, oa_title = t, oa_url = u, oa_published_at = p,
                    oa_description = d, oa_category = cat\<rparr>
            \<and> create_openai_article st1 og t' u' p' d' cat' = Inr (st1, None)
            \<and> filter (\<lambda>r. oa_guid r = og) (openai_articles st1) = [a]"
    by (simp add: create_openai_article_new create_openai_article_existing filter_key_absent)
next
  assume "ag \<notin> set (map an_guid (anthropic_articles st))"
  then show "\<exists>st1 a. create_anthropic_article st ag t u p d cat = Inr (st1, Some a)
            \<and> a = \<lparr>an_guid = ag, an_title = t, an_url = u, an_published_at = p,
                    an_description = d, an_category = cat, markdown = None\<rparr>
            \<and> create_anthropic_article st1 ag t' u' p' d' cat' = Inr (st1, None)
            \<and> filter (\<lambda>r. an_guid r = ag) (anthropic_articles st1) = [a]"
    by (simp add: create_anthropic_article_new create_anthropic_article_existing filter_key_absent)
qed

text \<open>At the sample database, with the new keys v9, a9 and b9.\<close>

theorem register_twice_witness:
  "''v9'' \<notin> set (map video_id (youtube_videos sample))
   \<and> ''a9'' \<notin> set (map oa_guid (openai_articles sample))
   \<and> ''b9'' \<notin> set (map an_guid (anthropic_articles sample))
   \<and> (\<exists>st1. create_youtube_video sample ''v9'' ''First'' ''u1'' ''UC01'' (Aware noon) ''d1'' None
              = Inr (st1, Some (\<lparr>video_id = ''v9'', yt_title = ''First'', yt_url = ''u1'',
                   channel_id = ''UC01'', yt_published_at = Aware noon, yt_description = ''d1'',
                   transcript = None\<rparr>))
          \<and> create_youtube_video st1 ''v9'' ''Second'' ''u2'' ''UC02'' (Naive 0) ''d2'' (Some ''x'')
              = Inr (st1, None))"
proof -
  have h1: "''v9'' \<notin> set (map video_id (youtube_videos sample))"
    by (simp add: sample_defs)
  have h2: "''a9'' \<notin> set (map oa_guid (openai_articles sample))"
    by (simp add: sample_defs)
  have h3: "''b9'' \<notin> set (map an_guid (anthropic_articles sample))"
    by (simp add: sample_defs)
  have "\<exists>st1 v. create_youtube_video sample ''v9'' ''First'' ''u1'' ''UC01'' (Aware noon) ''d1'' None
              = Inr (st1, Some v)
          \<and> v = \<lparr>video_id = ''v9'', yt_title = ''First'', yt_url = ''u1'',
                   channel_id = ''UC01'', yt_published_at = Aware noon, yt_description = ''d1'',
                   transcript = None\<rparr>
          \<and> create_youtube_video st1 ''v9'' ''Second'' ''u2'' ''UC02'' (Naive 0) ''d2'' (Some ''x'')
              = Inr (st1, None)
          \<and> filter (\<lambda>r. video_id r = ''v9'') (youtube_videos st1) = [v]"
    by (rule register_twice [THEN conjunct1, THEN mp, OF h1])
  then obtain st1 v where
    first: "create_youtube_video sample ''v9'' ''First'' ''u1'' ''UC01'' (Aware noon) ''d1'' None
              = Inr (st1, Some v)"
    and v: "v = \<lparr>video_id = ''v9'', yt_title = ''First'', yt_url = ''u1'',
                   channel_id = ''UC01'', yt_published_at = Aware noon, yt_description = ''d1'',
                   transcript = None\<rparr>"
    and second: "create_youtube_video st1 ''v9'' ''Second'' ''u2'' ''UC02'' (Naive 0) ''d2''
                   (Some ''x'') = Inr (st1, None)"
    by (elim exE conjE)
  have "\<exists>st1. create_youtube_video sample ''v9'' ''First'' ''u1'' ''UC01'' (Aware noon) ''d1'' None
              = Inr (st1, Some (\<lparr>video_id = ''v9'', yt_title = ''First'', yt_url = ''u1'',
                   channel_id = ''UC01'', yt_published_at = Aware noon, yt_description = ''d1'',
                   transcript = None\<rparr>))
          \<and> create_youtube_video st1 ''v9'' ''Second'' ''u2'' ''UC02'' (Naive 0) ''d2'' (Some ''x'')
              = Inr (st1, None)"
    using first [unfolded v] second by (intro exI [of _ st1] conjI)
  with h1 h2 h3 show ?thesis by (intro conjI)
qed

subsection \<open>Recording a digest twice\<close>

text \<open>
  Claim C3. For every database and every key, \<open>create_digest\<close> called twice with the
  same \<open>article_type\<close> and \<open>article_id\<close> never fails; the second call, whatever its
  other arguments, returns \<open>None\<close> and leaves the whole database exactly as the first
  call left it. When the ledger held no record under the digest id, the first call
  returns the created record and exactly one record, that one, carries the id
  afterwards; when it did, the first call too returns \<open>None\<close> and changes nothing.
\<close>

theorem create_digest_twice:
  "\<exists>st1 r. create_digest st now atype aid url title summ pub = Inr (st1, r)
      \<and> create_digest st1 now' atype aid url' title' summ' pub' = Inr (st1, None)
      \<and> (atype @ '':'' @ aid \<in> set (map dg_id (digests st)) \<longrightarrow> r = None \<and> st1 = st)
      \<and> (atype @ '':'' @ aid \<notin> set (map dg_id (digests st)) \<longrightarrow>
            r = Some \<lparr>dg_id = atype @ '':'' @ aid, article_type = atype, article_id = aid,
                      dg_url = url, dg_title = title, summary = summ,
                      created_at = (case pub of None \<Rightarrow> Aware now | Some p \<Rightarrow> Aware (micros p))\<rparr>
          \<and> filter (\<lambda>d. dg_id d = atype @ '':'' @ aid) (digests st1)
              = [\<lparr>dg_id = atype @ '':'' @ aid, article_type = atype, article_id = aid,
                  dg_url = url, dg_title = title, summary = summ,
                  created_at = (case pub of None \<Rightarrow> Aware now | Some p \<Rightarrow> Aware (micros p))\<rparr>])"
proof (cases "atype @ '':'' @ aid \<in> set (map dg_id (digests st))")
  case True
  then show ?thesis by (simp add: create_digest_existing)
next
  case False
  then show ?thesis
    by (simp add: create_digest_new create_digest_existing filter_key_absent)
qed

text \<open>At the sample database, for video v2, which has no digest yet.\<close>

theorem create_digest_twice_witness:
  "''youtube'' @ '':'' @ ''v2'' \<notin> set (map dg_id (digests sample))
   \<and> (\<exists>st1. create_digest sample noon ''youtube'' ''v2'' ''u1'' ''Title'' ''Summary'' None
              = Inr (st1, Some \<lparr>dg_id = ''youtube:v2'', article_type = ''youtube'',
                   article_id = ''v2'', dg_url = ''u1'', dg_title = ''Title'',
                   summary = ''Summary'', created_at = Aware noon\<rparr>)
          \<and> create_digest st1 (noon + hour) ''youtube'' ''v2'' ''u2'' ''Other'' ''Text''
               (Some (Naive 0)) = Inr (st1, None))"
proof -
  have h: "''youtube'' @ '':'' @ ''v2'' \<notin> set (map dg_id (digests sample))"
    by (simp add: sample_defs)
  obtain st1 r where
    first: "create_digest sample noon ''youtube'' ''v2'' ''u1'' ''Title'' ''Summary'' None
              = Inr (st1, r)"
    and second: "create_digest st1 (noon + hour) ''youtube'' ''v2'' ''u2'' ''Other'' ''Text''
               (Some (Naive 0)) = Inr (st1, None)"
    and new: "''youtube'' @ '':'' @ ''v2'' \<notin> set (map dg_id (digests sample)) \<longrightarrow>
            r = Some \<lparr>dg_id = ''youtube'' @ '':'' @ ''v2'', article_type = ''youtube'',
                      article_id = ''v2'', dg_url = ''u1'', dg_title = ''Title'',
                      summary = ''Summary'',
                      created_at = (case None of None \<Rightarrow> Aware noon
                                    | Some p \<Rightarrow> Aware (micros p))\<rparr>
          \<and> filter (\<lambda>d. dg_id d = ''youtube'' @ '':'' @ ''v2'') (digests st1)
              = [\<lparr>dg_id = ''youtube'' @ '':'' @ ''v2'', article_type = ''youtube'',
                  article_id = ''v2'', dg_url = ''u1'', dg_title = ''Title'',
                  summary = ''Summary'',
                  created_at = (case None of None \<Rightarrow> Aware noon
                                | Some p \<Rightarrow> Aware (micros p))\<rparr>]"
    using create_digest_twice [of sample noon "''youtube''" "''v2''" "''u1''" "''Title''"
        "''Summary''" None "noon + hour" "''u2''" "''Other''" "''Text''" "Some (Naive 0)"]
    by (elim exE conjE)
  from new h have "r = Some \<lparr>dg_id = ''youtube:v2'', article_type = ''youtube'',
                   article_id = ''v2'', dg_url = ''u1'', dg_title = ''Title'',
                   summary = ''Summary'', created_at = Aware noon\<rparr>"
    by simp
  with first second have
    "\<exists>st1. create_digest sample noon ''youtube'' ''v2'' ''u1'' ''Title'' ''Summary'' None
              = Inr (st1, Some \<lparr>dg_id = ''youtube:v2'', article_type = ''youtube'',
                   article_id = ''v2'', dg_url = ''u1'', dg_title = ''Title'',
                   summary = ''Summary'', created_at = Aware noon\<rparr>)
          \<and> create_digest st1 (noon + hour) ''youtube'' ''v2'' ''u2'' ''Other'' ''Text''
               (Some (Naive 0)) = Inr (st1, None)"
    by (intro exI [of _ st1]) simp
  with h show ?thesis by (intro conjI)
qed

subsection \<open>Unavailable is permanent\<close>

text \<open>
  Claim C4. For every database in which at most one row carries the key \<open>vid\<close> (the
  data model's unique key), once \<open>update_youtube_video_transcript\<close> has stored the
  UNAVAILABLE marker for \<open>vid\<close> and returned \<open>True\<close>, no later
  \<open>get_youtube_videos_without_transcript\<close>, with any limit and after any sequence of
  calls of repository methods, returns a video with that key. (The hypothesis holds in
  every database that the repository methods reach from one with pairwise distinct
  keys on tables with the uniqueness constraint: \<open>distinct_keys_perform_all\<close> and
  \<open>distinct_keys_at_most_one\<close> above.)
\<close>

theorem unavailable_is_permanent:
  assumes "length (filter (\<lambda>v. video_id v = vid) (youtube_videos st)) \<le> 1"
    and "update_youtube_video_transcript st vid UNAVAILABLE = (st1, True)"
  shows "vid \<notin> set (map video_id
           (get_youtube_videos_without_transcript (perform_all st1 calls) limit))"
  by (rule settled_not_pending, rule settled_perform_all, rule settled_after_update)
    (rule assms)+

text \<open>At the sample database, for the pending video v1 and the calls \<open>later_calls\<close>.\<close>

theorem unavailable_is_permanent_witness:
  "length (filter (\<lambda>v. video_id v = ''v1'') (youtube_videos sample)) \<le> 1
   \<and> snd (update_youtube_video_transcript sample ''v1'' UNAVAILABLE) = True
   \<and> ''v1'' \<in> set (map video_id (get_youtube_videos_without_transcript sample None))
   \<and> ''v1'' \<notin> set (map video_id
        (get_youtube_videos_without_transcript
           (perform_all (fst (update_youtube_video_transcript sample ''v1'' UNAVAILABLE))
              later_calls) None))"
proof -
  have h1: "length (filter (\<lambda>v. video_id v = ''v1'') (youtube_videos sample)) \<le> 1"
    by (simp add: sample_defs)
  have h2: "snd (update_youtube_video_transcript sample ''v1'' UNAVAILABLE) = True"
    by (simp add: update_youtube_video_transcript_def query_first_def sample_defs)
  then have h3: "update_youtube_video_transcript sample ''v1'' UNAVAILABLE
      = (fst (update_youtube_video_transcript sample ''v1'' UNAVAILABLE), True)"
    by (simp add: prod_eq_iff)
  have h4: "''v1'' \<in> set (map video_id (get_youtube_videos_without_transcript sample None))"
    by (simp add: get_youtube_videos_without_transcript_def query_limit_def sample_defs)
  show ?thesis
    using h1 h2 h4 unavailable_is_permanent [OF h1 h3, of later_calls None]
    by (intro conjI)
qed

subsection \<open>Attaching an enrichment\<close>

text \<open>
  Claim C5, as amended. For every database, key and value,
  \<open>update_youtube_video_transcript\<close> (\<open>update_anthropic_article_markdown\<close>) returns
  \<open>True\<close> exactly when a row is stored under the key. Then the first row of that key
  has the new value as its enrichment afterwards, whatever its enrichment was before:
  absent, a string or the UNAVAILABLE marker. The rows of other keys and the number
  of rows do not change. When no row is stored under the key the result is \<open>False\<close>
  and the database is unchanged.
\<close>

theorem attach_enrichment_overwrites:
  "(case update_youtube_video_transcript st vid tr of
      (st', ok) \<Rightarrow>
        ok = (vid \<in> set (map video_id (youtube_videos st)))
        \<and> (ok \<longrightarrow> (\<exists>v. query_first (\<lambda>r. video_id r = vid) (youtube_videos st) = Some v
                    \<and> query_first (\<lambda>r. video_id r = vid) (youtube_videos st')
                        = Some (v\<lparr>transcript := Some tr\<rparr>)))
        \<and> (\<not> ok \<longrightarrow> st' = st)
        \<and> filter (\<lambda>r. video_id r \<noteq> vid) (youtube_videos st')
            = filter (\<lambda>r. video_id r \<noteq> vid) (youtube_videos st)
        \<and> length (youtube_videos st') = length (youtube_videos st))
   \<and> (case update_anthropic_article_markdown st guid md of
      (st', ok) \<Rightarrow>
        ok = (guid \<in> set (map an_guid (anthropic_articles st)))
        \<and> (ok \<longrightarrow> (\<exists>a. query_first (\<lambda>r. an_guid r = guid) (anthropic_articles st) = Some a
                    \<and> query_first (\<lambda>r. an_guid r = guid) (anthropic_articles st')
                        = Some (a\<lparr>markdown := Some md\<rparr>)))
        \<and> (\<not> ok \<longrightarrow> st' = st)
        \<and> filter (\<lambda>r. an_guid r \<noteq> guid) (anthropic_articles st')
            = filter (\<lambda>r. an_guid r \<noteq> guid) (anthropic_articles st)
        \<and> length (anthropic_articles st') = length (anthropic_articles st))"
proof (rule conjI)
  show "case update_youtube_video_transcript st vid tr of
      (st', ok) \<Rightarrow>
        ok = (vid \<in> set (map video_id (youtube_videos st)))
        \<and> (ok \<longrightarrow> (\<exists>v. query_first (\<lambda>r. video_id r = vid) (youtube_videos st) = Some v
                    \<and> query_first (\<lambda>r. video_id r = vid) (youtube_videos st')
                        = Some (v\<lparr>transcript := Some tr\<rparr>)))
        \<and> (\<not> ok \<longrightarrow> st' = st)
        \<and> filter (\<lambda>r. video_id r \<noteq> vid) (youtube_videos st')
            = filter (\<lambda>r. video_id r \<noteq> vid) (youtube_videos st)
        \<and> length (youtube_videos st') = length (youtube_videos st)"
  proof (cases "vid \<in> set (map video_id (youtube_videos st))")
    case True
    then obtain v where v: "query_first (\<lambda>r. video_id r = vid) (youtube_videos st) = Some v"
      using query_first_Some_key by fastforce
    then have "find (\<lambda>r. video_id r = vid) (youtube_videos st) = Some v"
      by (simp add: query_first_def)
    then have "query_first (\<lambda>r. video_id r = vid)
        (update_first (\<lambda>v. video_id v = vid) (\<lambda>v. v\<lparr>transcript := Some tr\<rparr>) (youtube_videos st))
        = Some (v\<lparr>transcript := Some tr\<rparr>)"
      unfolding query_first_def by (rule update_first_find) simp
    with True v show ?thesis
      by (simp add: update_youtube_video_transcript_found [OF v] length_update_first
          update_first_others)
  next
    case False
    then show ?thesis by (simp add: update_youtube_video_transcript_missing)
  qed
  show "case update_anthropic_article_markdown st guid md of
      (st', ok) \<Rightarrow>
        ok = (guid \<in> set (map an_guid (anthropic_articles st)))
        \<and> (ok \<longrightarrow> (\<exists>a. query_first (\<lambda>r. an_guid r = guid) (anthropic_articles st) = Some a
                    \<and> query_first (\<lambda>r. an_guid r = guid) (anthropic_articles st')
                        = Some (a\<lparr>markdown := Some md\<rparr>)))
        \<and> (\<not> ok \<longrightarrow> st' = st)
        \<and> filter (\<lambda>r. an_guid r \<noteq> guid) (anthropic_articles st')
            = filter (\<lambda>r. an_guid r \<noteq> guid) (anthropic_articles st)
        \<and> length (anthropic_articles st') = length (anthropic_articles st)"
  proof (cases "guid \<in> set (map an_guid (anthropic_articles st))")
    case True
    then obtain a where a: "query_first (\<lambda>r. an_guid r = guid) (anthropic_articles st) = Some a"
      using query_first_Some_key by fastforce
    then have "find (\<lambda>r. an_guid r = guid) (anthropic_articles st) = Some a"
      by (simp add: query_first_def)
    then have "query_first (\<lambda>r. an_guid r = guid)
        (update_first (\<lambda>a. an_guid a = guid) (\<lambda>a. a\<lparr>markdown := Some md\<rparr>) (anthropic_articles st))
        = Some (a\<lparr>markdown := Some md\<rparr>)"
      unfolding query_first_def by (rule update_first_find) simp
    with True a show ?thesis
      by (simp add: update_anthropic_article_markdown_found [OF a] length_update_first
          update_first_others)
  next
    case False
    then show ?thesis by (simp add: update_anthropic_article_markdown_missing)
  qed
qed

text \<open>At the sample database, for video v2, which already has a transcript.\<close>

theorem attach_enrichment_overwrites_witness:
  "snd (update_youtube_video_transcript sample ''v2'' ''second text'') = True
   \<and> query_first (\<lambda>r. video_id r = ''v2'')
        (youtube_videos (fst (update_youtube_video_transcript sample ''v2'' ''second text'')))
      = Some (video ''v2'' (Some ''second text''))"
proof -
  have mem: "''v2'' \<in> set (map video_id (youtube_videos sample))"
    by (simp add: sample_defs)
  have q: "query_first (\<lambda>r. video_id r = ''v2'') (youtube_videos sample)
             = Some (video ''v2'' (Some ''transcript text''))"
    by (simp add: query_first_def sample_defs)
  have v: "(video ''v2'' (Some ''transcript text''))\<lparr>transcript := Some ''second text''\<rparr>
             = video ''v2'' (Some ''second text'')"
    by (simp add: video_def)
  have "snd (update_youtube_video_transcript sample ''v2'' ''second text'')
          = (''v2'' \<in> set (map video_id (youtube_videos sample)))
        \<and> (snd (update_youtube_video_transcript sample ''v2'' ''second text'') \<longrightarrow>
             (\<exists>v. query_first (\<lambda>r. video_id r = ''v2'') (youtube_videos sample) = Some v
                \<and> query_first (\<lambda>r. video_id r = ''v2'')
                     (youtube_videos
                        (fst (update_youtube_video_transcript sample ''v2'' ''second text'')))
                   = Some (v\<lparr>transcript := Some ''second text''\<rparr>)))"
    using attach_enrichment_overwrites
      [where st = sample and vid = "''v2''" and tr = "''second text''"]
    by (simp add: case_prod_beta)
  with mem q v show ?thesis by simp
qed

text \<open>
  Claim C5 as stated fails: video v2 of the sample database has a transcript and video
  v3 is marked unavailable; a later update replaces either value and returns \<open>True\<close>.
\<close>

theorem attach_enrichment_counterexample:
  "map transcript (youtube_videos sample)
     = [None, Some ''transcript text'', Some ''__UNAVAILABLE__'', Some ''an older talk'']
   \<and> update_youtube_video_transcript sample ''v2'' ''second text''
     = (sample\<lparr>youtube_videos :=
          [video ''v1'' None, video ''v2'' (Some ''second text''),
           video ''v3'' (Some ''__UNAVAILABLE__''), video ''v4'' (Some ''an older talk'')]\<rparr>,
        True)
   \<and> update_youtube_video_transcript sample ''v3'' ''late text''
     = (sample\<lparr>youtube_videos :=
          [video ''v1'' None, video ''v2'' (Some ''transcript text''),
           video ''v3'' (Some ''late text''), video ''v4'' (Some ''an older talk'')]\<rparr>,
        True)"
  by (simp add: update_youtube_video_transcript_def query_first_def sample_defs)

subsection \<open>Batches\<close>

text \<open>
  Claim C6, at a batch that holds one key twice. The bulk methods test every
  dictionary against the stored rows only, so both dictionaries pass the test. On
  tables without a uniqueness constraint both rows are stored, and two rows carry the
  key; on tables with the constraint the commit is rejected and nothing of the batch
  is stored. (For a batch of pairwise distinct keys,
  \<open>bulk_create_youtube_videos_distinct_batch\<close> above gives the count of the new rows
  and the stored rows, old ones first and untouched.)
\<close>

theorem bulk_create_duplicate_in_batch:
  "map vd_video_id twin_videos = [''d1'', ''d1'']
   \<and> bulk_create_youtube_videos unconstrained_store twin_videos
     = Inr (unconstrained_store\<lparr>youtube_videos := map youtube_video_of twin_videos\<rparr>, 2)
   \<and> bulk_create_youtube_videos empty_store twin_videos = Inl IntegrityError
   \<and> map ad_guid twin_articles = [''g1'', ''g1'']
   \<and> bulk_create_openai_articles unconstrained_store twin_articles
     = Inr (unconstrained_store\<lparr>openai_articles := map openai_article_of twin_articles\<rparr>, 2)
   \<and> bulk_create_openai_articles empty_store twin_articles = Inl IntegrityError"
  by (simp add: bulk_create_youtube_videos_def bulk_create_openai_articles_def Let_def
      query_first_def add_commit_def twin_videos_def twin_articles_def unconstrained_store_def
      empty_store_def youtube_video_of_def openai_article_of_def get_default_def)

subsection \<open>Recent digests\<close>

text \<open>
  Claim C7, as amended. For every ledger, clock reading and window for which the
  cutoff exists (the window is a representable \<^verbatim>\<open>timedelta\<close> and the clock reading
  minus the window a representable \<^verbatim>\<open>datetime\<close>), \<open>get_recent_digests\<close> returns
  exactly the digests whose \<open>created_at\<close> is not before the cutoff, each as often as
  the ledger holds it, ordered by \<open>created_at\<close>, newest first. For every other window
  it raises OverflowError.
\<close>

theorem recent_digests_window:
  "(cutoff_in_range now hours \<longrightarrow>
      (\<exists>r. get_recent_digests st now hours = Inr r
         \<and> mset r = mset (filter (\<lambda>d. now - hours * 3600000000 \<le> micros (created_at d))
                            (digests st))
         \<and> sorted_wrt (\<lambda>a b. micros (created_at b) \<le> micros (created_at a)) r))
   \<and> (\<not> cutoff_in_range now hours \<longrightarrow> get_recent_digests st now hours = Inl OverflowError)"
  by (simp add: get_recent_digests_in_range get_recent_digests_out_of_range mset_order_by
      sorted_order_by)

text \<open>
  At the sample ledger, at noon, with a window of 24 hours: the digest stamped 30
  hours ago is left out, the other two come newest first.
\<close>

theorem recent_digests_window_witness:
  "cutoff_in_range noon 24
   \<and> get_recent_digests sample noon 24
       = Inr [digest_of ''openai'' ''a2'' (noon - 2 * hour),
              digest_of ''anthropic'' ''b3'' (noon - 10 * hour)]
   \<and> (\<exists>r. get_recent_digests sample noon 24 = Inr r
         \<and> mset r = mset (filter (\<lambda>d. noon - 24 * 3600000000 \<le> micros (created_at d))
                            (digests sample))
         \<and> sorted_wrt (\<lambda>a b. micros (created_at b) \<le> micros (created_at a)) r)"
proof -
  have h: "cutoff_in_range noon 24"
    by (simp add: cutoff_in_range_def noon_def DATETIME_MAX_def)
  have e: "get_recent_digests sample noon 24
       = Inr [digest_of ''openai'' ''a2'' (noon - 2 * hour),
              digest_of ''anthropic'' ''b3'' (noon - 10 * hour)]"
    unfolding get_recent_digests_in_range [OF h]
    by (simp add: order_by_created_at_desc_def sample_defs)
  have "\<exists>r. get_recent_digests sample noon 24 = Inr r
         \<and> mset r = mset (filter (\<lambda>d. noon - 24 * 3600000000 \<le> micros (created_at d))
                            (digests sample))
         \<and> sorted_wrt (\<lambda>a b. micros (created_at b) \<le> micros (created_at a)) r"
    by (rule recent_digests_window [of noon 24 sample, THEN conjunct1, THEN mp, OF h])
  with h e show ?thesis by (intro conjI)
qed

text \<open>
  Claim C7 as stated fails for a window that reaches before the year 1: at noon of
  2026-11-03, a window of 20000000 hours raises OverflowError.
\<close>

theorem recent_digests_counterexample:
  "get_recent_digests sample noon 20000000 = Inl OverflowError"
  by (simp add: get_recent_digests_def timedelta_hours_def datetime_sub_def noon_def)

text \<open>
  Claim C8, as amended. \<open>get_recent_digests\<close> does not validate the window. For every
  window that is zero or negative, at a clock reading \<open>now\<close> (not before
  \<^verbatim>\<open>datetime.min\<close>) for which the cutoff, \<open>now\<close> plus the window's magnitude, is not
  after \<^verbatim>\<open>datetime.max\<close>, it returns normally: the digests of the ledger stamped at
  or after that cutoff.
\<close>

theorem nonpositive_window_is_accepted:
  assumes "hours \<le> 0" and "0 \<le> now" and "now - hours * 3600000000 \<le> DATETIME_MAX"
  shows "\<exists>r. get_recent_digests st now hours = Inr r
           \<and> set r = {d \<in> set (digests st). now + (- hours) * 3600000000 \<le> micros (created_at d)}"
proof -
  have "set (order_by_created_at_desc
               (filter (\<lambda>d. now - hours * 3600000000 \<le> micros (created_at d)) (digests st)))
          = {d \<in> set (digests st). now + (- hours) * 3600000000 \<le> micros (created_at d)}"
    by (simp add: order_by_created_at_desc_def)
  then show ?thesis
    by (simp add: get_recent_digests_in_range [OF nonpositive_in_range [OF assms]])
qed

text \<open>At the sample ledger, three hours before noon, with a window of minus one hour.\<close>

theorem nonpositive_window_is_accepted_witness:
  "(- 1 :: int) \<le> 0 \<and> 0 \<le> noon - 3 * hour
   \<and> (noon - 3 * hour) - (- 1) * 3600000000 \<le> DATETIME_MAX
   \<and> (\<exists>r. get_recent_digests sample (noon - 3 * hour) (- 1) = Inr r
         \<and> set r = {d \<in> set (digests sample).
                     (noon - 3 * hour) + (- (- 1)) * 3600000000 \<le> micros (created_at d)})"
proof -
  have h1: "(- 1 :: int) \<le> 0" by simp
  have h2: "0 \<le> noon - 3 * hour" by (simp add: noon_def hour_def)
  have h3: "(noon - 3 * hour) - (- 1) * 3600000000 \<le> DATETIME_MAX"
    by (simp add: noon_def hour_def DATETIME_MAX_def)
  show ?thesis
    using h1 h2 h3 nonpositive_window_is_accepted [OF h1 h2 h3, of sample]
    by (intro conjI)
qed

text \<open>
  Claim C8 as stated fails: with a window of zero hours, and with one of minus one
  hour, the call returns a list, here an empty one and one of a single digest.
\<close>

theorem nonpositive_window_counterexample:
  "get_recent_digests sample noon 0 = Inr []
   \<and> get_recent_digests sample (noon - 3 * hour) (- 1)
       = Inr [digest_of ''openai'' ''a2'' (noon - 2 * hour)]"
  by (simp add: get_recent_digests_def timedelta_hours_def datetime_sub_def digest_dict_def
      order_by_created_at_desc_def DATETIME_MAX_def sample_defs)

subsection \<open>The empty key\<close>

text \<open>
  Claim C9, as amended. The repository does not validate keys. With the empty string
  as key, each create method does what it does with any other key: it stores a row
  under the empty key and returns it when no stored row has that key, and returns
  \<open>None\<close>, changing nothing, when one has. Each update method, when a row is stored
  under the empty key, writes the new value into the first such row and returns
  \<open>True\<close>; when none is, it returns \<open>False\<close> and changes nothing. No call signals
  an error.
\<close>

theorem empty_key_is_accepted:
  "create_youtube_video st '''' t u c p d tr =
     (if '''' \<in> set (map video_id (youtube_videos st)) then Inr (st, None)
      else Inr (st\<lparr>youtube_videos := youtube_videos st @
                  [\<lparr>video_id = '''', yt_title = t, yt_url = u, channel_id = c,
                    yt_published_at = p, yt_description = d, transcript = tr\<rparr>]\<rparr>,
                Some \<lparr>video_id = '''', yt_title = t, yt_url = u, channel_id = c,
                      yt_published_at = p, yt_description = d, transcript = tr\<rparr>))
   \<and> create_openai_article st '''' t u p d cat =
     (if '''' \<in> set (map oa_guid (openai_articles st)) then Inr (st, None)
      else Inr (st\<lparr>openai_articles := openai_articles st @
                  [\<lparr>oa_guid = '''', oa_title = t, oa_url = u, oa_published_at = p,
                    oa_description = d, oa_category = cat\<rparr>]\<rparr>,
                Some \<lparr>oa_guid = '''', oa_title = t, oa_url = u, oa_published_at = p,
                      oa_description = d, oa_category = cat\<rparr>))
   \<and> create_anthropic_article st '''' t u p d cat =
     (if '''' \<in> set (map an_guid (anthropic_articles st)) then Inr (st, None)
      else Inr (st\<lparr>anthropic_articles := anthropic_articles st @
                  [\<lparr>an_guid = '''', an_title = t, an_url = u, an_published_at = p,
                    an_description = d, an_category = cat, markdown = None\<rparr>]\<rparr>,
                Some \<lparr>an_guid = '''', an_title = t, an_url = u, an_published_at = p,
                      an_description = d, an_category = cat, markdown = None\<rparr>))
   \<and> snd (update_youtube_video_transcript st '''' x)
       = ('''' \<in> set (map video_id (youtube_videos st)))
   \<and> ('''' \<in> set (map video_id (youtube_videos st)) \<longrightarrow>
        (\<exists>v. query_first (\<lambda>r. video_id r = '''') (youtube_videos st) = Some v
           \<and> query_first (\<lambda>r. video_id r = '''')
                (youtube_videos (fst (update_youtube_video_transcript st '''' x)))
              = Some (v\<lparr>transcript := Some x\<rparr>)))
   \<and> ('''' \<notin> set (map video_id (youtube_videos st)) \<longrightarrow>
        fst (update_youtube_video_transcript st '''' x) = st)
   \<and> snd (update_anthropic_article_markdown st '''' x)
       = ('''' \<in> set (map an_guid (anthropic_articles st)))
   \<and> ('''' \<in> set (map an_guid (anthropic_articles st)) \<longrightarrow>
        (\<exists>a. query_first (\<lambda>r. an_guid r = '''') (anthropic_articles st) = Some a
           \<and> query_first (\<lambda>r. an_guid r = '''')
                (anthropic_articles (fst (update_anthropic_article_markdown st '''' x)))
              = Some (a\<lparr>markdown := Some x\<rparr>)))
   \<and> ('''' \<notin> set (map an_guid (anthropic_articles st)) \<longrightarrow>
        fst (update_anthropic_article_markdown st '''' x) = st)"
proof (intro conjI impI)
  show "snd (update_youtube_video_transcript st '''' x)
       = ('''' \<in> set (map video_id (youtube_videos st)))"
    using query_first_None_key [of video_id "''''" "youtube_videos st"]
    by (auto simp: update_youtube_video_transcript_def split: option.splits)
  show "snd (update_anthropic_article_markdown st '''' x)
       = ('''' \<in> set (map an_guid (anthropic_articles st)))"
    using query_first_None_key [of an_guid "''''" "anthropic_articles st"]
    by (auto simp: update_anthropic_article_markdown_def split: option.splits)
next
  assume "'''' \<in> set (map video_id (youtube_videos st))"
  then show "\<exists>v. query_first (\<lambda>r. video_id r = '''') (youtube_videos st) = Some v
           \<and> query_first (\<lambda>r. video_id r = '''')
                (youtube_videos (fst (update_youtube_video_transcript st '''' x)))
              = Some (v\<lparr>transcript := Some x\<rparr>)"
    by (rule update_youtube_video_transcript_writes)
next
  assume "'''' \<notin> set (map video_id (youtube_videos st))"
  then show "fst (update_youtube_video_transcript st '''' x) = st"
    by (simp add: update_youtube_video_transcript_missing)
next
  assume "'''' \<in> set (map an_guid (anthropic_articles st))"
  then show "\<exists>a. query_first (\<lambda>r. an_guid r = '''') (anthropic_articles st) = Some a
           \<and> query_first (\<lambda>r. an_guid r = '''')
                (anthropic_articles (fst (update_anthropic_article_markdown st '''' x)))
              = Some (a\<lparr>markdown := Some x\<rparr>)"
    by (rule update_anthropic_article_markdown_writes)
next
  assume "'''' \<notin> set (map an_guid (anthropic_articles st))"
  then show "fst (update_anthropic_article_markdown st '''' x) = st"
    by (simp add: update_anthropic_article_markdown_missing)
qed (simp_all add: create_youtube_video_new create_youtube_video_existing
      create_openai_article_new create_openai_article_existing
      create_anthropic_article_new create_anthropic_article_existing)

text \<open>
  At the sample database, which holds no row under the empty key, and at the database
  that holds one video under it.
\<close>

theorem empty_key_is_accepted_witness:
  "create_openai_article sample '''' ''T'' ''u'' (Aware noon) ''d'' None =
     Inr (sample\<lparr>openai_articles := openai_articles sample @
            [\<lparr>oa_guid = '''', oa_title = ''T'', oa_url = ''u'', oa_published_at = Aware noon,
              oa_description = ''d'', oa_category = None\<rparr>]\<rparr>,
          Some \<lparr>oa_guid = '''', oa_title = ''T'', oa_url = ''u'', oa_published_at = Aware noon,
                oa_description = ''d'', oa_category = None\<rparr>)
   \<and> update_youtube_video_transcript sample '''' ''words'' = (sample, False)
   \<and> '''' \<in> set (map video_id (youtube_videos keyless_store))
   \<and> snd (update_youtube_video_transcript keyless_store '''' ''words'') = True
   \<and> query_first (\<lambda>r. video_id r = '''')
        (youtube_videos (fst (update_youtube_video_transcript keyless_store '''' ''words'')))
      = Some (keyless_video\<lparr>transcript := Some ''words''\<rparr>)"
proof -
  have h1: "'''' \<notin> set (map oa_guid (openai_articles sample))"
    by (simp add: sample_defs)
  have h2: "'''' \<notin> set (map video_id (youtube_videos sample))"
    by (simp add: sample_defs)
  have h3: "'''' \<in> set (map video_id (youtube_videos keyless_store))"
    by (simp add: keyless_store_def keyless_video_def)
  have q: "query_first (\<lambda>r. video_id r = '''') (youtube_videos keyless_store)
             = Some keyless_video"
    by (simp add: query_first_def keyless_store_def keyless_video_def)
  note at_sample = empty_key_is_accepted
    [where st = sample and t = "''T''" and u = "''u''" and p = "Aware noon" and d = "''d''"
       and cat = None and x = "''words''"]
  note at_keyless = empty_key_is_accepted [where st = keyless_store and x = "''words''"]
  have a: "create_openai_article sample '''' ''T'' ''u'' (Aware noon) ''d'' None =
     Inr (sample\<lparr>openai_articles := openai_articles sample @
            [\<lparr>oa_guid = '''', oa_title = ''T'', oa_url = ''u'', oa_published_at = Aware noon,
              oa_description = ''d'', oa_category = None\<rparr>]\<rparr>,
          Some \<lparr>oa_guid = '''', oa_title = ''T'', oa_url = ''u'', oa_published_at = Aware noon,
                oa_description = ''d'', oa_category = None\<rparr>)"
    using at_sample h1 by simp
  have "snd (update_youtube_video_transcript sample '''' ''words'') = False"
    using at_sample h2 by simp
  moreover have "fst (update_youtube_video_transcript sample '''' ''words'') = sample"
    using at_sample h2 by simp
  ultimately have b: "update_youtube_video_transcript sample '''' ''words'' = (sample, False)"
    by (simp add: prod_eq_iff)
  have c: "snd (update_youtube_video_transcript keyless_store '''' ''words'') = True"
    using at_keyless h3 by simp
  have "\<exists>v. query_first (\<lambda>r. video_id r = '''') (youtube_videos keyless_store) = Some v
           \<and> query_first (\<lambda>r. video_id r = '''')
                (youtube_videos (fst (update_youtube_video_transcript keyless_store '''' ''words'')))
              = Some (v\<lparr>transcript := Some ''words''\<rparr>)"
    using at_keyless h3 by simp
  then have e: "query_first (\<lambda>r. video_id r = '''')
        (youtube_videos (fst (update_youtube_video_transcript keyless_store '''' ''words'')))
      = Some (keyless_video\<lparr>transcript := Some ''words''\<rparr>)"
    unfolding q by simp
  from a b h3 c e show ?thesis by (intro conjI)
qed

text \<open>
  Claim C9 as stated fails: on the empty database, registering a video under the
  empty key creates the row, and attaching a transcript under the empty key updates it
  and returns \<open>True\<close>.
\<close>

theorem empty_key_counterexample:
  "create_youtube_video empty_store '''' ''Untitled'' ''https://youtu.be/'' ''UC01''
       (Aware noon) '''' None
     = Inr (keyless_store, Some keyless_video)
   \<and> update_youtube_video_transcript keyless_store '''' ''words''
     = (empty_store\<lparr>youtube_videos := [keyless_video\<lparr>transcript := Some ''words''\<rparr>]\<rparr>, True)"
  by (simp add: create_youtube_video_def update_youtube_video_transcript_def query_first_def Let_def
      add_commit_def empty_store_def keyless_store_def keyless_video_def)

subsection \<open>Limits\<close>

text \<open>
  Claim C10. For every database, the limit \<open>0\<close> behaves as no limit: each of
  \<open>get_youtube_videos_without_transcript\<close>, \<open>get_anthropic_articles_without_markdown\<close>
  and \<open>get_articles_without_digest\<close> returns with \<open>Some 0\<close> the sequence it returns
  with \<open>None\<close>, which is the whole, unbounded result.
\<close>

theorem limit_zero_is_no_limit:
  "get_youtube_videos_without_transcript st (Some 0)
     = get_youtube_videos_without_transcript st None
   \<and> get_youtube_videos_without_transcript st None
     = filter (\<lambda>v. transcript v = None) (youtube_videos st)
   \<and> get_anthropic_articles_without_markdown st (Some 0)
     = get_anthropic_articles_without_markdown st None
   \<and> get_anthropic_articles_without_markdown st None
     = filter (\<lambda>a. markdown a = None) (anthropic_articles st)
   \<and> get_articles_without_digest st (Some 0) = get_articles_without_digest st None"
  by (simp add: get_youtube_videos_without_transcript_def
      get_anthropic_articles_without_markdown_def get_articles_without_digest_def
      query_limit_def)

text \<open>At the sample database the limit 0 returns the pending rows, not an empty list.\<close>

theorem limit_zero_is_no_limit_witness:
  "get_youtube_videos_without_transcript sample (Some 0) = [video ''v1'' None]
   \<and> get_anthropic_articles_without_markdown sample (Some 0) = [anthropic_post ''b1'' None]
   \<and> map u_id (get_articles_without_digest sample (Some 0)) = [''v2'', ''a1'', ''b2'']"
proof -
  have a: "get_youtube_videos_without_transcript sample None = [video ''v1'' None]"
    by (simp add: get_youtube_videos_without_transcript_def query_limit_def sample_defs)
  have b: "get_anthropic_articles_without_markdown sample None = [anthropic_post ''b1'' None]"
    by (simp add: get_anthropic_articles_without_markdown_def query_limit_def sample_defs)
  have c: "map u_id (get_articles_without_digest sample None) = [''v2'', ''a1'', ''b2'']"
    by (simp add: get_articles_without_digest_None has_digest_def sample_defs
        youtube_item_def openai_item_def anthropic_item_def)
  show ?thesis using limit_zero_is_no_limit [of sample] a b c by simp
qed

end
